theory Spec2Isabelle
  imports Main
begin

section \<open>Python built-ins used by the handlers\<close>

text \<open>
  Python integers are unbounded: \<open>int\<close>. Text and byte strings are \<open>string\<close>.
  \<open>str(n)\<close>, \<open>hex(n)\<close> and \<open>int(s)\<close> are the three conversions
  \<^verbatim>\<open>tokeneth/handlers.py\<close> applies to integers.
\<close>

type_synonym bytes = string

definition digit_char :: "nat \<Rightarrow> char" where
  "digit_char d = ''0123456789abcdef'' ! d"

function render_nat :: "nat \<Rightarrow> nat \<Rightarrow> string" where
  "render_nat b n =
     (if b < 2 \<or> n < b then [digit_char n]
      else render_nat b (n div b) @ [digit_char (n mod b)])"
  by pat_completeness auto
termination
  by (relation "measure (\<lambda>(b, n). n)") auto

declare render_nat.simps [simp del]

text \<open>\<open>str(n)\<close>: decimal digits, a leading minus sign for a negative number.\<close>

definition py_str :: "int \<Rightarrow> string" where
  "py_str n = (if n < 0 then CHR ''-'' # render_nat 10 (nat (- n)) else render_nat 10 (nat n))"

text \<open>\<open>hex(n)\<close>: lower-case digits after \<open>0x\<close>; \<open>hex(-5)\<close> is \<open>-0x5\<close>.\<close>

definition py_hex :: "int \<Rightarrow> string" where
  "py_hex n = (if n < 0 then ''-0x'' @ render_nat 16 (nat (- n)) else ''0x'' @ render_nat 16 (nat n))"

definition digit_val :: "char \<Rightarrow> nat option" where
  "digit_val c =
     (let k = (of_char c :: nat) in if 48 \<le> k \<and> k \<le> 57 then Some (k - 48) else None)"

fun parse_digits :: "nat \<Rightarrow> string \<Rightarrow> nat option" where
  "parse_digits acc [] = Some acc"
| "parse_digits acc (c # cs) =
     (case digit_val c of None \<Rightarrow> None | Some d \<Rightarrow> parse_digits (10 * acc + d) cs)"

text \<open>
  \<open>int(s)\<close> on a text or byte string: an optional sign and one or more decimal digits;
  \<open>None\<close> stands for the \<^verbatim>\<open>ValueError\<close>. Python also accepts surrounding
  white space and single underscores between digits, forms that \<open>str\<close> never writes;
  on those this function answers \<open>None\<close>, and wherever it answers \<open>Some n\<close> Python
  returns \<open>n\<close>.
\<close>

definition py_int :: "string \<Rightarrow> int option" where
  "py_int s =
     (case s of
        [] \<Rightarrow> None
      | c # r \<Rightarrow>
          if c = CHR ''-'' then (if r = [] then None else map_option (\<lambda>n. - int n) (parse_digits 0 r))
          else if c = CHR ''+'' then (if r = [] then None else map_option int (parse_digits 0 r))
          else map_option int (parse_digits 0 s))"

section \<open>Failures\<close>

text \<open>
  \<^verbatim>\<open>raise JSONHTTPError(status, body={'errors': [{'id': slug, 'message': text}]})\<close>
  is \<open>JSONHTTPError status slug text\<close>. An exception that no \<^verbatim>\<open>except\<close> clause
  of the handler catches leaves the handler as \<open>Uncaught\<close>.

  What a call of the node's client can raise: the \<^verbatim>\<open>JsonRPCError\<close> that the
  handlers import from \<^verbatim>\<open>asyncbb.ethereum.client\<close>, or an exception of any other
  class (a refused connection, a timeout), kept with its text.
\<close>

datatype rpc_error = JsonRPCError string | OtherException string

datatype exn =
    ValueError
  | TypeError
  | RPCFailure rpc_error
  | SenderUndefined
  | UniqueViolation

datatype failure =
    JSONHTTPError nat string string
  | Uncaught exn

section \<open>The pending ledger and the nonce cache\<close>

text \<open>
  A row of table \<^verbatim>\<open>transactions\<close>, with the columns the handlers read and write.
  \<open>value\<close> and \<open>estimated_gas_cost\<close> hold the text \<open>str\<close> wrote; \<open>confirmed\<close> is
  \<open>None\<close> for SQL \<^verbatim>\<open>NULL\<close>.
\<close>

record row =
  transaction_hash :: string
  from_address :: string
  to_address :: string
  "value" :: string
  estimated_gas_cost :: string
  sender_token_id :: "string option"
  confirmed :: "string option"

datatype effect = CacheSet string string | LedgerInsert row

text \<open>
  The two stores a handler shares with other requests: \<open>redis\<close> (keys to byte strings)
  and \<open>db\<close> (the rows of \<^verbatim>\<open>transactions\<close>). \<open>journal\<close> lists the writes in the
  order the handler made them.
\<close>

record state =
  redis :: "string \<rightharpoonup> bytes"
  db :: "row list"
  journal :: "effect list"

text \<open>The answers of the Ethereum node to the three RPC calls of the handlers.\<close>

record chain =
  eth_getBalance :: "string \<Rightarrow> rpc_error + int"
  eth_getTransactionCount :: "string \<Rightarrow> rpc_error + int"
  eth_sendRawTransaction :: "string \<Rightarrow> rpc_error + string"

section \<open>\<^verbatim>\<open>BalanceMixin.get_balances\<close>\<close>

text \<open>
  \<^verbatim>\<open>sum(int(p['value']) + int(p['estimated_gas_cost']) for p in pending_sent)\<close>:
  the generator converts row by row, so the first row that does not convert raises.
\<close>

fun sum_sent :: "row list \<Rightarrow> exn + int" where
  "sum_sent [] = Inr 0"
| "sum_sent (p # ps) =
     (case py_int (value p) of
        None \<Rightarrow> Inl ValueError
      | Some v \<Rightarrow>
          (case py_int (estimated_gas_cost p) of
             None \<Rightarrow> Inl ValueError
           | Some g \<Rightarrow> (case sum_sent ps of Inl e \<Rightarrow> Inl e | Inr t \<Rightarrow> Inr (v + g + t))))"

text \<open>\<^verbatim>\<open>sum(int(p['value']) for p in pending_recieved)\<close>\<close>

fun sum_recieved :: "row list \<Rightarrow> exn + int" where
  "sum_recieved [] = Inr 0"
| "sum_recieved (p # ps) =
     (case py_int (value p) of
        None \<Rightarrow> Inl ValueError
      | Some v \<Rightarrow> (case sum_recieved ps of Inl e \<Rightarrow> Inl e | Inr t \<Rightarrow> Inr (v + t)))"

text \<open>
  \<^verbatim>\<open>SELECT value, estimated_gas_cost FROM transactions
    WHERE confirmed IS NULL AND from_address = $1\<close>
\<close>

definition fetch_pending_sent :: "row list \<Rightarrow> string \<Rightarrow> row list" where
  "fetch_pending_sent rows a = filter (\<lambda>r. confirmed r = None \<and> from_address r = a) rows"

text \<open>
  \<^verbatim>\<open>SELECT value FROM transactions WHERE confirmed IS NULL AND to_address = $1\<close>
\<close>

definition fetch_pending_recieved :: "row list \<Rightarrow> string \<Rightarrow> row list" where
  "fetch_pending_recieved rows a = filter (\<lambda>r. confirmed r = None \<and> to_address r = a) rows"

text \<open>
  The node is asked first; an RPC error is not caught. An empty result set takes the
  \<^verbatim>\<open>else\<close> branch (\<open>0\<close>), which is also what \<open>sum\<close> gives for it.
\<close>

definition get_balances :: "chain \<Rightarrow> state \<Rightarrow> string \<Rightarrow> bool \<Rightarrow> exn + (int \<times> int)" where
  "get_balances ch s eth_address ignore_pending_recieved =
     (case eth_getBalance ch eth_address of
        Inl e \<Rightarrow> Inl (RPCFailure e)
      | Inr confirmed_balance \<Rightarrow>
          (case (let ps = fetch_pending_sent (db s) eth_address
                 in if ps \<noteq> [] \<and> length ps > 0 then sum_sent ps else Inr 0) of
             Inl e \<Rightarrow> Inl e
           | Inr pending_sent \<Rightarrow>
               (case (if \<not> ignore_pending_recieved
                      then (let pr = fetch_pending_recieved (db s) eth_address
                            in if pr \<noteq> [] \<and> length pr > 0 then sum_recieved pr else Inr 0)
                      else Inr 0) of
                  Inl e \<Rightarrow> Inl e
                | Inr pending_recieved \<Rightarrow>
                    Inr (confirmed_balance, confirmed_balance + pending_recieved - pending_sent))))"

section \<open>Request bodies and the library the handlers import\<close>

text \<open>
  A value of the decoded JSON body. \<open>JNull\<close> is Python's \<^verbatim>\<open>None\<close>. \<open>JOther t\<close> is a
  float, list or dict, kept with the text \<open>t\<close> that \<open>str\<close> gives for it: the handlers
  never look inside such a value, they only pass it on or format it.
\<close>

datatype jvalue = JNull | JBool bool | JInt int | JStr string | JOther string

text \<open>\<^verbatim>\<open>"{}".format(v)\<close>\<close>

fun py_format :: "jvalue \<Rightarrow> string" where
  "py_format JNull = ''None''"
| "py_format (JBool b) = (if b then ''True'' else ''False'')"
| "py_format (JInt n) = py_str n"
| "py_format (JStr t) = t"
| "py_format (JOther t) = t"

text \<open>\<^verbatim>\<open>self.json.get(k)\<close>: \<^verbatim>\<open>None\<close> for a missing key and for a key bound to null.\<close>

definition dict_get :: "(string \<rightharpoonup> jvalue) \<Rightarrow> string \<Rightarrow> jvalue" where
  "dict_get d k = (case d k of None \<Rightarrow> JNull | Some v \<Rightarrow> v)"

text \<open>
  The names imported from \<^verbatim>\<open>tokenbrowser.utils\<close> and \<^verbatim>\<open>tokenbrowser.tx\<close>, a
  library that is not part of this repository: they are parameters. \<open>'tx\<close> is the
  library's transaction object, read through its attributes \<open>tx_nonce\<close>, \<open>tx_gasprice\<close>,
  \<open>tx_startgas\<close>, \<open>tx_value\<close>, \<open>tx_to\<close> and \<open>tx_sender\<close>. \<open>decode_transaction\<close> and
  \<open>data_decoder\<close> answer \<open>None\<close> where they raise (the handler wraps both in
  \<^verbatim>\<open>try\<close>); \<open>tx_sender\<close> answers \<open>None\<close> where the sender is undefined.
  \<open>add_signature_to_transaction\<close> updates the object in place: the result is the object
  every later statement reads.
\<close>

record 'tx lib =
  validate_address :: "jvalue \<Rightarrow> bool"
  parse_int :: "jvalue \<Rightarrow> int option"
  validate_signature :: "jvalue \<Rightarrow> bool"
  data_decoder :: "jvalue \<Rightarrow> bytes option"
  data_encoder :: "bytes \<Rightarrow> string"
  DEFAULT_STARTGAS :: int
  DEFAULT_GASPRICE :: int
  create_transaction :: "int \<Rightarrow> int \<Rightarrow> int \<Rightarrow> jvalue \<Rightarrow> int \<Rightarrow> 'tx"
  encode_transaction :: "'tx \<Rightarrow> string"
  decode_transaction :: "jvalue \<Rightarrow> 'tx option"
  is_transaction_signed :: "'tx \<Rightarrow> bool"
  signature_from_transaction :: "'tx \<Rightarrow> string"
  add_signature_to_transaction :: "'tx \<Rightarrow> bytes \<Rightarrow> 'tx"
  tx_nonce :: "'tx \<Rightarrow> int"
  tx_gasprice :: "'tx \<Rightarrow> int"
  tx_startgas :: "'tx \<Rightarrow> int"
  tx_value :: "'tx \<Rightarrow> int"
  tx_to :: "'tx \<Rightarrow> bytes"
  tx_sender :: "'tx \<Rightarrow> bytes option"

text \<open>
  A POST request: the JSON body, and what \<^verbatim>\<open>RequestVerificationMixin\<close> makes of
  its headers. \<open>auth = None\<close>: \<^verbatim>\<open>is_request_signed()\<close> is false. \<open>Some (Inr t)\<close>:
  \<^verbatim>\<open>verify_request()\<close> returns the token id \<open>t\<close>. \<open>Some (Inl e)\<close>: it raises \<open>e\<close>.
\<close>

record request =
  json :: "string \<rightharpoonup> jvalue"
  auth :: "(failure + string) option"

section \<open>\<^verbatim>\<open>BalanceHandler.get\<close>\<close>

record balance_body =
  confirmed_balance :: string
  unconfirmed_balance :: string

definition BalanceHandler_get ::
    "'tx lib \<Rightarrow> chain \<Rightarrow> state \<Rightarrow> string \<Rightarrow> failure + balance_body" where
  "BalanceHandler_get l ch s address =
     (if \<not> validate_address l (JStr address)
      then Inl (JSONHTTPError 400 ''invalid_address'' ''Invalid Address'')
      else (case get_balances ch s address False of
              Inl e \<Rightarrow> Inl (Uncaught e)
            | Inr (conf, unconf) \<Rightarrow>
                Inr \<lparr>confirmed_balance = py_hex conf,
                     unconfirmed_balance = py_hex unconf\<rparr>))"

section \<open>The nonce both POST handlers compute\<close>

text \<open>
  Lines 101--109 of \<^verbatim>\<open>handlers.py\<close>, and again lines 206--212:
  \<^verbatim>\<open>
  nonce = self.redis.get("nonce:{}".format(from_address))
  if nonce:
      nonce = int(nonce)
  nw_nonce = await self.eth.eth_getTransactionCount(from_address)
  if nonce is None or nw_nonce > nonce:
      nonce = nw_nonce
  \<close>
  An empty byte string is false, so it is not converted, and the comparison of the
  node's integer with it raises \<^verbatim>\<open>TypeError\<close>. \<open>a\<close> is the formatted address.
\<close>

definition cached_or_network_nonce :: "chain \<Rightarrow> state \<Rightarrow> string \<Rightarrow> exn + int" where
  "cached_or_network_nonce ch s a =
     (case redis s (''nonce:'' @ a) of
        None \<Rightarrow>
          (case eth_getTransactionCount ch a of
             Inl e \<Rightarrow> Inl (RPCFailure e)
           | Inr nw_nonce \<Rightarrow> Inr nw_nonce)
      | Some b \<Rightarrow>
          if b \<noteq> [] then
            (case py_int b of
               None \<Rightarrow> Inl ValueError
             | Some nonce \<Rightarrow>
                 (case eth_getTransactionCount ch a of
                    Inl e \<Rightarrow> Inl (RPCFailure e)
                  | Inr nw_nonce \<Rightarrow> Inr (if nw_nonce > nonce then nw_nonce else nonce)))
          else
            (case eth_getTransactionCount ch a of
               Inl e \<Rightarrow> Inl (RPCFailure e)
             | Inr nw_nonce \<Rightarrow> Inl TypeError))"

section \<open>\<^verbatim>\<open>TransactionSkeletonHandler.post\<close>\<close>

record tx_data =
  td_nonce :: string
  td_from :: jvalue
  td_to :: jvalue
  td_value :: string
  td_startGas :: string
  td_gasPrice :: string

record skeleton =
  sk_tx_data :: tx_data
  sk_tx :: string

text \<open>Lines 98--113.\<close>

definition skeleton_nonce ::
    "'tx lib \<Rightarrow> chain \<Rightarrow> state \<Rightarrow> (string \<rightharpoonup> jvalue) \<Rightarrow> jvalue \<Rightarrow> failure + int" where
  "skeleton_nonce l ch s body from_addr =
     (let nonce = dict_get body ''nonce'' in
      if nonce = JNull then
        (case cached_or_network_nonce ch s (py_format from_addr) of
           Inl e \<Rightarrow> Inl (Uncaught e)
         | Inr n \<Rightarrow> Inr n)
      else
        (case parse_int l nonce of
           None \<Rightarrow> Inl (JSONHTTPError 400 ''invalid_nonce'' ''Invalid Nonce'')
         | Some n \<Rightarrow> Inr n))"

text \<open>Lines 115--121.\<close>

definition skeleton_gas :: "'tx lib \<Rightarrow> (string \<rightharpoonup> jvalue) \<Rightarrow> failure + int" where
  "skeleton_gas l body =
     (let gas = dict_get body ''gas'' in
      if gas = JNull then Inr (DEFAULT_STARTGAS l)
      else
        (case parse_int l gas of
           None \<Rightarrow> Inl (JSONHTTPError 400 ''invalid_gas'' ''Invalid Gas'')
         | Some g \<Rightarrow> Inr g))"

text \<open>Lines 123--129.\<close>

definition skeleton_gas_price :: "'tx lib \<Rightarrow> (string \<rightharpoonup> jvalue) \<Rightarrow> failure + int" where
  "skeleton_gas_price l body =
     (let gas_price = dict_get body ''gas_price'' in
      if gas_price = JNull then Inr (DEFAULT_GASPRICE l)
      else
        (case parse_int l gas_price of
           None \<Rightarrow> Inl (JSONHTTPError 400 ''invalid_gas_price'' ''Invalid Gas Price'')
         | Some g \<Rightarrow> Inr g))"

text \<open>
  The handler writes nothing to the cache or the ledger, so it returns its response
  only. \<^verbatim>\<open>if not value\<close> is true for \<^verbatim>\<open>None\<close> and for \<open>0\<close>.
\<close>

definition TransactionSkeletonHandler_post ::
    "'tx lib \<Rightarrow> chain \<Rightarrow> state \<Rightarrow> (string \<rightharpoonup> jvalue) \<Rightarrow> failure + skeleton" where
  "TransactionSkeletonHandler_post l ch s body =
     (case (body ''value'', body ''to'', body ''from'') of
        (Some val, Some to_addr, Some from_addr) \<Rightarrow>
          if \<not> validate_address l from_addr
          then Inl (JSONHTTPError 400 ''invalid_from_address'' ''Invalid From Address'')
          else if \<not> validate_address l to_addr
          then Inl (JSONHTTPError 400 ''invalid_to_address'' ''Invalid To Address'')
          else
            (case parse_int l val of
               None \<Rightarrow> Inl (JSONHTTPError 400 ''invalid_value'' ''Invalid Value'')
             | Some v \<Rightarrow>
                 if v = 0 then Inl (JSONHTTPError 400 ''invalid_value'' ''Invalid Value'')
                 else
                   (case skeleton_nonce l ch s body from_addr of
                      Inl e \<Rightarrow> Inl e
                    | Inr nonce \<Rightarrow>
                        (case skeleton_gas l body of
                           Inl e \<Rightarrow> Inl e
                         | Inr gas \<Rightarrow>
                             (case skeleton_gas_price l body of
                                Inl e \<Rightarrow> Inl e
                              | Inr gas_price \<Rightarrow>
                                  Inr \<lparr>sk_tx_data =
                                         \<lparr>td_nonce = py_hex nonce,
                                          td_from = from_addr,
                                          td_to = to_addr,
                                          td_value = py_hex v,
                                          td_startGas = py_hex gas,
                                          td_gasPrice = py_hex gas_price\<rparr>,
                                       sk_tx = encode_transaction l
                                         (create_transaction l nonce gas_price gas to_addr v)\<rparr>))))
      | _ \<Rightarrow> Inl (JSONHTTPError 400 ''bad_arguments'' ''Bad Arguments''))"

section \<open>\<^verbatim>\<open>SendTransactionHandler.post\<close>\<close>

text \<open>\<^verbatim>\<open>self.redis.set(k, n)\<close>: the client stores the integer as its decimal text.\<close>

definition redis_set :: "state \<Rightarrow> string \<Rightarrow> int \<Rightarrow> state" where
  "redis_set s k n =
     s\<lparr>redis := (redis s)(k \<mapsto> py_str n), journal := journal s @ [CacheSet k (py_str n)]\<rparr>"

text \<open>
  Modelled from the spec: the schema of table \<^verbatim>\<open>transactions\<close> is not among the
  sources. The spec's data model makes \<open>transactionHash\<close> the primary key and
  \<open>confirmed\<close> a nullable timestamp, so an \<^verbatim>\<open>INSERT\<close> of a hash that is already
  there raises, and the inserted row, which names no \<open>confirmed\<close>, has it null.
\<close>

definition db_insert :: "state \<Rightarrow> row \<Rightarrow> exn + state" where
  "db_insert s r =
     (if transaction_hash r \<in> set (map transaction_hash (db s)) then Inl UniqueViolation
      else Inr (s\<lparr>db := db s @ [r], journal := journal s @ [LedgerInsert r]\<rparr>))"

text \<open>Lines 152--156.\<close>

definition authenticate :: "request \<Rightarrow> failure + string option" where
  "authenticate req =
     (case auth req of
        None \<Rightarrow> Inr None
      | Some (Inl e) \<Rightarrow> Inl e
      | Some (Inr t) \<Rightarrow> Inr (Some t))"

text \<open>Lines 168--191: the signature of the payload against the decoded transaction.\<close>

definition reconcile_signature ::
    "'tx lib \<Rightarrow> (string \<rightharpoonup> jvalue) \<Rightarrow> 'tx \<Rightarrow> failure + 'tx" where
  "reconcile_signature l payload tx =
     (if is_transaction_signed l tx then
        (case payload ''signature'' of
           None \<Rightarrow> Inr tx
         | Some sg \<Rightarrow>
             if JStr (signature_from_transaction l tx) \<noteq> sg
             then Inl (JSONHTTPError 400 ''invalid_signature'' ''Invalid Signature'')
             else Inr tx)
      else
        (case payload ''signature'' of
           None \<Rightarrow> Inl (JSONHTTPError 400 ''missing_signature'' ''Missing Signature'')
         | Some sg \<Rightarrow>
             if \<not> validate_signature l sg
             then Inl (JSONHTTPError 400 ''invalid_signature'' ''Invalid Signature'')
             else
               (case data_decoder l sg of
                  None \<Rightarrow> Inl (JSONHTTPError 400 ''invalid_signature'' ''Invalid Signature'')
                | Some raw \<Rightarrow> Inr (add_signature_to_transaction l tx raw))))"

text \<open>
  Lines 193--194: \<^verbatim>\<open>tx.sender\<close> and \<^verbatim>\<open>tx.to\<close> of the transaction as the
  reconcile step left it, both in hex.
\<close>

definition derive_endpoints ::
    "'tx lib \<Rightarrow> string option \<Rightarrow> 'tx \<Rightarrow> failure + (string option \<times> 'tx \<times> string \<times> string)" where
  "derive_endpoints l token_id tx =
     (case tx_sender l tx of
        None \<Rightarrow> Inl (Uncaught SenderUndefined)
      | Some sender \<Rightarrow>
          Inr (token_id, tx, data_encoder l sender, data_encoder l (tx_to l tx)))"

text \<open>
  Lines 152--194: from the request to the token id of its sender, the transaction with
  its signature, and the two addresses.
\<close>

definition submitted ::
    "'tx lib \<Rightarrow> request \<Rightarrow> failure + (string option \<times> 'tx \<times> string \<times> string)" where
  "submitted l req =
     (case authenticate req of
        Inl e \<Rightarrow> Inl e
      | Inr token_id \<Rightarrow>
          (case json req ''tx'' of
             None \<Rightarrow> Inl (JSONHTTPError 400 ''bad_arguments'' ''Bad Arguments'')
           | Some raw_tx \<Rightarrow>
               (case decode_transaction l raw_tx of
                  None \<Rightarrow> Inl (JSONHTTPError 400 ''invalid_transaction'' ''Invalid Transaction'')
                | Some tx0 \<Rightarrow>
                    (case reconcile_signature l (json req) tx0 of
                       Inl e \<Rightarrow> Inl e
                     | Inr tx \<Rightarrow> derive_endpoints l token_id tx))))"

text \<open>Lines 196--203. The \<^verbatim>\<open>log.info\<close> call between them changes nothing.\<close>

definition check_funds :: "'tx lib \<Rightarrow> chain \<Rightarrow> state \<Rightarrow> 'tx \<Rightarrow> string \<Rightarrow> failure + unit" where
  "check_funds l ch s tx from_addr =
     (case get_balances ch s from_addr True of
        Inl e \<Rightarrow> Inl (Uncaught e)
      | Inr (network_balance, balance) \<Rightarrow>
          if balance < tx_value l tx + tx_startgas l tx * tx_gasprice l tx
          then Inl (JSONHTTPError 400 ''insufficient_funds'' ''Insufficient Funds'')
          else Inr ())"

text \<open>Lines 205--215.\<close>

definition check_nonce :: "'tx lib \<Rightarrow> chain \<Rightarrow> state \<Rightarrow> 'tx \<Rightarrow> string \<Rightarrow> failure + unit" where
  "check_nonce l ch s tx from_addr =
     (case cached_or_network_nonce ch s from_addr of
        Inl e \<Rightarrow> Inl (Uncaught e)
      | Inr c_nonce \<Rightarrow>
          if tx_nonce l tx < c_nonce
          then Inl (JSONHTTPError 400 ''invalid_nonce'' ''Provided nonce is too low'')
          else Inr ())"

text \<open>The row of the \<^verbatim>\<open>INSERT\<close> statement of lines 232--234.\<close>

definition ledger_row :: "'tx lib \<Rightarrow> string \<Rightarrow> string \<Rightarrow> string \<Rightarrow> 'tx \<Rightarrow> string option \<Rightarrow> row" where
  "ledger_row l tx_hash from_addr to_addr tx token_id =
     \<lparr>transaction_hash = tx_hash,
      from_address = from_addr,
      to_address = to_addr,
      value = py_str (tx_value l tx),
      estimated_gas_cost = py_str (tx_startgas l tx * tx_gasprice l tx),
      sender_token_id = token_id,
      confirmed = None\<rparr>"

text \<open>
  Lines 220--239: broadcast, then the cache, then the ledger. The clause
  \<^verbatim>\<open>except JsonRPCError\<close> catches that class only: a broadcast that raises any
  other exception leaves the handler with it. A failing \<^verbatim>\<open>INSERT\<close> is not caught
  either and comes after the cache write.
\<close>

definition broadcast_and_record ::
    "'tx lib \<Rightarrow> chain \<Rightarrow> state \<Rightarrow> string option \<Rightarrow> 'tx \<Rightarrow> string \<Rightarrow> string \<Rightarrow>
       (failure + string) \<times> state" where
  "broadcast_and_record l ch s token_id tx from_addr to_addr =
     (case eth_sendRawTransaction ch (encode_transaction l tx) of
        Inl (JsonRPCError e) \<Rightarrow>
          (Inl (JSONHTTPError 500 ''unexpected_error''
             ''An error occured communicating with the ethereum network, try again later''), s)
      | Inl (OtherException e) \<Rightarrow> (Inl (Uncaught (RPCFailure (OtherException e))), s)
      | Inr tx_hash \<Rightarrow>
          (let s1 = redis_set s (''nonce:'' @ from_addr) (tx_nonce l tx + 1) in
           case db_insert s1 (ledger_row l tx_hash from_addr to_addr tx token_id) of
             Inl e \<Rightarrow> (Inl (Uncaught e), s1)
           | Inr s2 \<Rightarrow> (Inr tx_hash, s2)))"

text \<open>
  The handler: its response (\<open>Inr h\<close> for the body \<^verbatim>\<open>{"tx_hash": h}\<close>) and the
  stores as it leaves them.
\<close>

definition SendTransactionHandler_post ::
    "'tx lib \<Rightarrow> chain \<Rightarrow> state \<Rightarrow> request \<Rightarrow> (failure + string) \<times> state" where
  "SendTransactionHandler_post l ch s req =
     (case submitted l req of
        Inl e \<Rightarrow> (Inl e, s)
      | Inr (token_id, tx, from_addr, to_addr) \<Rightarrow>
          (case check_funds l ch s tx from_addr of
             Inl e \<Rightarrow> (Inl e, s)
           | Inr _ \<Rightarrow>
               (case check_nonce l ch s tx from_addr of
                  Inl e \<Rightarrow> (Inl e, s)
                | Inr _ \<Rightarrow> broadcast_and_record l ch s token_id tx from_addr to_addr)))"

section \<open>A small instance, for running the handlers on concrete requests\<close>

text \<open>Three accounts, four transaction hashes and two 65-byte signatures, in hex.\<close>

definition addr_a :: string where
  "addr_a = ''0xaaaaaaaaaaaaaaaaaaaaaaaaaaaaaaaaaaaaaaaa''"

definition addr_b :: string where
  "addr_b = ''0xbbbbbbbbbbbbbbbbbbbbbbbbbbbbbbbbbbbbbbbb''"

definition addr_c :: string where
  "addr_c = ''0xcccccccccccccccccccccccccccccccccccccccc''"

definition hash_1 :: string where
  "hash_1 = ''0x1111111111111111111111111111111111111111111111111111111111111111''"

definition hash_7 :: string where
  "hash_7 = ''0x7777777777777777777777777777777777777777777777777777777777777777''"

definition hash_8 :: string where
  "hash_8 = ''0x8888888888888888888888888888888888888888888888888888888888888888''"

definition hash_9 :: string where
  "hash_9 = ''0x9999999999999999999999999999999999999999999999999999999999999999''"

definition sig_a :: string where
  "sig_a = ''0x5555555555555555555555555555555555555555555555555555555555555555555555555555555555555555555555555555555555555555555555555555555555''"

definition sig_b :: string where
  "sig_b = ''0x6666666666666666666666666666666666666666666666666666666666666666666666666666666666666666666666666666666666666666666666666666666666''"

text \<open>
  The validators and \<open>parse_int\<close> of the instance follow the specification: an address
  is \<open>0x\<close> and 40 hex digits, a signature \<open>0x\<close> and 130 hex digits, an integer is a
  JSON number or a hex string with the \<open>0x\<close> prefix.
\<close>

definition is_hex_char :: "char \<Rightarrow> bool" where
  "is_hex_char c = (c \<in> set ''0123456789abcdefABCDEF'')"

definition hex_string :: "nat \<Rightarrow> string \<Rightarrow> bool" where
  "hex_string n t = (length t = n + 2 \<and> take 2 t = ''0x'' \<and> list_all is_hex_char (drop 2 t))"

definition hex_val :: "char \<Rightarrow> nat option" where
  "hex_val c =
     map_of (zip ''0123456789abcdefABCDEF''
       [0, 1, 2, 3, 4, 5, 6, 7, 8, 9, 10, 11, 12, 13, 14, 15, 10, 11, 12, 13, 14, 15]) c"

fun parse_hex :: "nat \<Rightarrow> string \<Rightarrow> nat option" where
  "parse_hex acc [] = Some acc"
| "parse_hex acc (c # cs) =
     (case hex_val c of None \<Rightarrow> None | Some d \<Rightarrow> parse_hex (16 * acc + d) cs)"

definition sample_parse_int :: "jvalue \<Rightarrow> int option" where
  "sample_parse_int j =
     (case j of
        JInt n \<Rightarrow> Some n
      | JStr t \<Rightarrow>
          if take 2 t = ''0x'' \<and> drop 2 t \<noteq> [] then map_option int (parse_hex 0 (drop 2 t))
          else None
      | _ \<Rightarrow> None)"

text \<open>
  A transaction object with the six components of the spec's data model, and a library
  over it. The codec is a stand-in: it knows two payloads, and its encoding keeps the
  nonce only. Byte strings are kept in their hex notation, so \<open>data_encoder\<close> and
  \<open>data_decoder\<close> change nothing. Every signature is a signature of account \<open>addr_a\<close>.
\<close>

record sample_tx =
  s_nonce :: int
  s_gasprice :: int
  s_startgas :: int
  s_to :: bytes
  s_value :: int
  s_signature :: "bytes option"

definition unsigned_tx :: sample_tx where
  "unsigned_tx =
     \<lparr>s_nonce = 9, s_gasprice = 2, s_startgas = 5, s_to = addr_b, s_value = 20,
      s_signature = None\<rparr>"

definition signed_tx :: sample_tx where
  "signed_tx = unsigned_tx\<lparr>s_signature := Some sig_a\<rparr>"

definition sample_lib :: "sample_tx lib" where
  "sample_lib =
     \<lparr>validate_address = (\<lambda>j. case j of JStr t \<Rightarrow> hex_string 40 t | _ \<Rightarrow> False),
      parse_int = sample_parse_int,
      validate_signature = (\<lambda>j. case j of JStr t \<Rightarrow> hex_string 130 t | _ \<Rightarrow> False),
      data_decoder = (\<lambda>j. case j of JStr t \<Rightarrow> Some t | _ \<Rightarrow> None),
      data_encoder = (\<lambda>b. b),
      DEFAULT_STARTGAS = 21000,
      DEFAULT_GASPRICE = 20000000000,
      create_transaction = (\<lambda>n gp sg t v.
        \<lparr>s_nonce = n, s_gasprice = gp, s_startgas = sg, s_to = py_format t, s_value = v,
         s_signature = None\<rparr>),
      encode_transaction = (\<lambda>tx. ''0xe0'' @ render_nat 16 (nat (s_nonce tx))),
      decode_transaction = (\<lambda>j.
        if j = JStr ''0xe009'' then Some unsigned_tx
        else if j = JStr ''0xf809'' then Some signed_tx
        else None),
      is_transaction_signed = (\<lambda>tx. s_signature tx \<noteq> None),
      signature_from_transaction = (\<lambda>tx. case s_signature tx of None \<Rightarrow> [] | Some b \<Rightarrow> b),
      add_signature_to_transaction = (\<lambda>tx b. tx\<lparr>s_signature := Some b\<rparr>),
      tx_nonce = s_nonce,
      tx_gasprice = s_gasprice,
      tx_startgas = s_startgas,
      tx_value = s_value,
      tx_to = s_to,
      tx_sender = (\<lambda>tx. case s_signature tx of None \<Rightarrow> None | Some b \<Rightarrow> Some addr_a)\<rparr>"

text \<open>
  A node that knows account \<open>addr_a\<close> with balance 1000 and transaction count 7 and
  every other account with 0 and 0. It accepts a broadcast with hash \<open>hash_1\<close>
  (\<open>sample_chain\<close>), rejects it with a JSON-RPC error (\<open>failing_chain\<close>), or cannot be
  reached for it (\<open>unreachable_chain\<close>).
\<close>

definition sample_chain :: chain where
  "sample_chain =
     \<lparr>eth_getBalance = (\<lambda>a. if a = addr_a then Inr 1000 else Inr 0),
      eth_getTransactionCount = (\<lambda>a. if a = addr_a then Inr 7 else Inr 0),
      eth_sendRawTransaction = (\<lambda>t. Inr hash_1)\<rparr>"

definition failing_chain :: chain where
  "failing_chain =
     sample_chain\<lparr>eth_sendRawTransaction := (\<lambda>t. Inl (JsonRPCError ''nonce too low''))\<rparr>"

definition unreachable_chain :: chain where
  "unreachable_chain =
     sample_chain\<lparr>eth_sendRawTransaction := (\<lambda>t. Inl (OtherException ''connection refused''))\<rparr>"

text \<open>
  The two pending rows of the balance scenario: an unconfirmed transfer of 50 to
  \<open>addr_a\<close> and an unconfirmed transfer of 20 from it with gas cost 10. \<open>sample_rows\<close>
  adds a confirmed row, which the queries skip.
\<close>

definition pending_rows :: "row list" where
  "pending_rows =
     [\<lparr>transaction_hash = hash_7, from_address = addr_c, to_address = addr_a,
       value = ''50'', estimated_gas_cost = ''4'', sender_token_id = None, confirmed = None\<rparr>,
      \<lparr>transaction_hash = hash_8, from_address = addr_a, to_address = addr_b,
       value = ''20'', estimated_gas_cost = ''10'', sender_token_id = None, confirmed = None\<rparr>]"

definition sample_rows :: "row list" where
  "sample_rows =
     pending_rows @
     [\<lparr>transaction_hash = hash_9, from_address = addr_a, to_address = addr_b,
       value = ''300'', estimated_gas_cost = ''10'', sender_token_id = None,
       confirmed = Some ''2017-01-01 00:00:00''\<rparr>]"

definition pending_state :: state where
  "pending_state = \<lparr>redis = Map.empty, db = pending_rows, journal = []\<rparr>"

definition sample_state :: state where
  "sample_state = \<lparr>redis = Map.empty, db = sample_rows, journal = []\<rparr>"

text \<open>Caches: one that equals the nonce of the sample transaction, one that leads it.\<close>

definition cached_state :: state where
  "cached_state = sample_state\<lparr>redis := [''nonce:'' @ addr_a \<mapsto> ''9'']\<rparr>"

definition stale_state :: state where
  "stale_state = sample_state\<lparr>redis := [''nonce:'' @ addr_a \<mapsto> ''12'']\<rparr>"

definition poor_chain :: chain where
  "poor_chain = sample_chain\<lparr>eth_getBalance := (\<lambda>a. Inr 40)\<rparr>"

text \<open>
  Requests for each branch of the signature step: a signed transaction alone, an
  unsigned one with its signature beside it, a signed one with another signature
  beside it, an unsigned one with none, and an unsigned one with a signature of the
  wrong length.
\<close>

definition signed_request :: request where
  "signed_request = \<lparr>json = [''tx'' \<mapsto> JStr ''0xf809''], auth = None\<rparr>"

definition unsigned_request :: request where
  "unsigned_request =
     \<lparr>json = [''tx'' \<mapsto> JStr ''0xe009'', ''signature'' \<mapsto> JStr sig_a],
      auth = Some (Inr ''token'')\<rparr>"

definition conflicting_request :: request where
  "conflicting_request =
     \<lparr>json = [''tx'' \<mapsto> JStr ''0xf809'', ''signature'' \<mapsto> JStr sig_b], auth = None\<rparr>"

definition bare_request :: request where
  "bare_request = \<lparr>json = [''tx'' \<mapsto> JStr ''0xe009''], auth = None\<rparr>"

definition malformed_request :: request where
  "malformed_request =
     \<lparr>json = [''tx'' \<mapsto> JStr ''0xe009'', ''signature'' \<mapsto> JStr ''0x55''], auth = None\<rparr>"

text \<open>The skeleton request of scenario S1, and the same with a nonce supplied.\<close>

definition skeleton_body :: "string \<rightharpoonup> jvalue" where
  "skeleton_body = [''from'' \<mapsto> JStr addr_a, ''to'' \<mapsto> JStr addr_b, ''value'' \<mapsto> JStr ''0x64'']"

definition nonce_body :: "string \<rightharpoonup> jvalue" where
  "nonce_body = skeleton_body(''nonce'' \<mapsto> JInt 3)"

text \<open>A skeleton request that supplies all three optional fields.\<close>

definition priced_body :: "string \<rightharpoonup> jvalue" where
  "priced_body = nonce_body(''gas'' \<mapsto> JStr ''0x5300'', ''gas_price'' \<mapsto> JInt 255)"

section \<open>The nonce floor as the specification words it\<close>

text \<open>
  \<open>max(cached, chainN)\<close>, an absent cache entry counting as minus infinity. This one
  definition follows the specification, to be compared with \<open>cached_or_network_nonce\<close>.
\<close>

definition nonce_floor :: "int option \<Rightarrow> int \<Rightarrow> int" where
  "nonce_floor cached chainN = (case cached of None \<Rightarrow> chainN | Some c \<Rightarrow> max c chainN)"

section \<open>\<open>str\<close> and \<open>int\<close> are inverse on integers\<close>

lemma digit_val_digit_char: "d < 10 \<Longrightarrow> digit_val (digit_char d) = Some d"
proof -
  assume "d < 10"
  then have "d \<in> {0, 1, 2, 3, 4, 5, 6, 7, 8, 9}" by auto
  then show ?thesis
    by (auto simp: digit_val_def digit_char_def)
qed

lemma digit_val_sign [simp]: "digit_val CHR ''-'' = None" "digit_val CHR ''+'' = None"
  by (simp_all add: digit_val_def)

lemma parse_digits_snoc:
  "parse_digits acc (xs @ [c]) =
     (case parse_digits acc xs of
        None \<Rightarrow> None
      | Some a \<Rightarrow> (case digit_val c of None \<Rightarrow> None | Some d \<Rightarrow> Some (10 * a + d)))"
  by (induction xs arbitrary: acc) (auto split: option.splits)

lemma render_nat_nonempty: "render_nat b n \<noteq> []"
  by (subst render_nat.simps) simp

lemma parse_digits_render: "parse_digits 0 (render_nat 10 n) = Some n"
proof (induction n rule: less_induct)
  case (less n)
  show ?case
  proof (cases "n < 10")
    case True
    then show ?thesis
      by (subst render_nat.simps) (simp add: digit_val_digit_char)
  next
    case False
    then have "parse_digits 0 (render_nat 10 (n div 10)) = Some (n div 10)"
      by (intro less.IH) simp
    with False show ?thesis
      by (subst render_nat.simps) (simp add: parse_digits_snoc digit_val_digit_char)
  qed
qed

lemma py_int_render: "py_int (render_nat 10 n) = Some (int n)"
proof -
  obtain c r where s: "render_nat 10 n = c # r"
    using render_nat_nonempty [of 10 n] by (cases "render_nat 10 n") auto
  have p: "parse_digits 0 (c # r) = Some n"
    using parse_digits_render [of n] s by simp
  then have "digit_val c \<noteq> None"
    by (auto split: option.splits)
  then have "c \<noteq> CHR ''-''" "c \<noteq> CHR ''+''"
    by auto
  with p s show ?thesis
    by (simp add: py_int_def)
qed

lemma py_int_py_str: "py_int (py_str n) = Some n"
proof (cases "n < 0")
  case True
  have "py_int (CHR ''-'' # render_nat 10 (nat (- n))) = Some (- int (nat (- n)))"
    by (simp add: py_int_def render_nat_nonempty parse_digits_render)
  with True show ?thesis
    by (simp add: py_str_def)
next
  case False
  then show ?thesis
    by (simp add: py_str_def py_int_render)
qed

section \<open>The balance identity\<close>

lemma sum_sent_decimal:
  "\<forall>p\<in>set ps. py_int (value p) \<noteq> None \<and> py_int (estimated_gas_cost p) \<noteq> None \<Longrightarrow>
   sum_sent ps = Inr (\<Sum>p\<leftarrow>ps. the (py_int (value p)) + the (py_int (estimated_gas_cost p)))"
  by (induction ps) auto

lemma sum_recieved_decimal:
  "\<forall>p\<in>set ps. py_int (value p) \<noteq> None \<Longrightarrow>
   sum_recieved ps = Inr (\<Sum>p\<leftarrow>ps. the (py_int (value p)))"
  by (induction ps) auto

text \<open>
  Claim C1. For every address, every balance \<open>C\<close> the node reports for it and every
  ledger whose unconfirmed rows hold decimal integers, \<open>get_balances\<close> with
  \<open>ignore_pending_recieved\<close> false returns \<open>C\<close> and \<open>C\<close> plus the values of the
  unconfirmed rows sent to the address minus value and gas cost of the unconfirmed rows
  sent from it; with the flag true the second component is \<open>C\<close> minus the latter sum.
  The sums are over unbounded integers.
\<close>

theorem get_balances_identity:
  assumes "eth_getBalance ch A = Inr C"
    and "\<forall>r\<in>set (db s). confirmed r = None \<longrightarrow>
           py_int (value r) \<noteq> None \<and> py_int (estimated_gas_cost r) \<noteq> None"
  shows "get_balances ch s A False =
           Inr (C, C + (\<Sum>r\<leftarrow>[r\<leftarrow>db s. confirmed r = None \<and> to_address r = A]. the (py_int (value r)))
                   - (\<Sum>r\<leftarrow>[r\<leftarrow>db s. confirmed r = None \<and> from_address r = A].
                        the (py_int (value r)) + the (py_int (estimated_gas_cost r))))
       \<and> get_balances ch s A True =
           Inr (C, C - (\<Sum>r\<leftarrow>[r\<leftarrow>db s. confirmed r = None \<and> from_address r = A].
                        the (py_int (value r)) + the (py_int (estimated_gas_cost r))))"
proof -
  have sent: "sum_sent (fetch_pending_sent (db s) A) =
      Inr (\<Sum>r\<leftarrow>fetch_pending_sent (db s) A. the (py_int (value r)) + the (py_int (estimated_gas_cost r)))"
    using assms(2) by (intro sum_sent_decimal) (auto simp: fetch_pending_sent_def)
  have recv: "sum_recieved (fetch_pending_recieved (db s) A) =
      Inr (\<Sum>r\<leftarrow>fetch_pending_recieved (db s) A. the (py_int (value r)))"
    using assms(2) by (intro sum_recieved_decimal) (auto simp: fetch_pending_recieved_def)
  show ?thesis
    using assms(1) sent recv
    by (auto simp: get_balances_def Let_def fetch_pending_sent_def fetch_pending_recieved_def)
qed

section \<open>The balance endpoint\<close>

lemma py_hex_1000: "py_hex 1000 = ''0x3e8''"
  by (simp add: py_hex_def render_nat.simps digit_char_def)

lemma py_hex_1020: "py_hex 1020 = ''0x3fc''"
  by (simp add: py_hex_def render_nat.simps digit_char_def)

text \<open>
  Claim C7, as amended. With a chain balance of 1000, one unconfirmed row of value 50
  sent to the address and one unconfirmed row sent from it with value 20 and gas cost
  10, \<^verbatim>\<open>GET /balance/{addr}\<close> answers \<open>confirmed_balance = "0x3e8"\<close> and
  \<open>unconfirmed_balance = "0x3fc"\<close>: 1000 + 50 - 30 = 1020, which is \<open>0x3fc\<close> in hex,
  not the \<open>0x40c\<close> of the claim.
\<close>

theorem balance_rendering:
  assumes "validate_address l (JStr A)"
    and "eth_getBalance ch A = Inr 1000"
    and "db s = [rin, rout]"
    and "confirmed rin = None" "to_address rin = A" "from_address rin \<noteq> A"
    and "value rin = ''50''"
    and "confirmed rout = None" "from_address rout = A" "to_address rout \<noteq> A"
    and "value rout = ''20''" "estimated_gas_cost rout = ''10''"
  shows "BalanceHandler_get l ch s A =
           Inr \<lparr>confirmed_balance = ''0x3e8'', unconfirmed_balance = ''0x3fc''\<rparr>"
proof -
  have "get_balances ch s A False = Inr (1000, 1020)"
    using assms
    by (simp add: get_balances_def fetch_pending_sent_def fetch_pending_recieved_def
        py_int_def digit_val_def)
  with assms(1) show ?thesis
    by (simp add: BalanceHandler_get_def py_hex_1000 py_hex_1020)
qed

section \<open>The submission pipeline\<close>

lemma broadcast_not_400:
  "fst (broadcast_and_record l ch s tok tx a b) \<noteq> Inl (JSONHTTPError 400 slug msg)"
  by (simp add: broadcast_and_record_def Let_def split: sum.splits rpc_error.splits)

lemma check_nonce_failure:
  "check_nonce l ch s tx a = Inl e \<Longrightarrow>
     e = JSONHTTPError 400 ''invalid_nonce'' ''Provided nonce is too low'' \<or> (\<exists>x. e = Uncaught x)"
  by (auto simp: check_nonce_def split: sum.splits if_splits)

text \<open>
  Claim C4. For a submission that reaches the balance check (the steps before it
  produced a transaction and its sender, and \<open>get_balances\<close> with the pending-in flag
  set returned the effective balance), the handler answers 400
  \<open>insufficient_funds\<close> exactly when the effective balance is strictly less than
  \<open>tx.value + tx.startgas * tx.gasprice\<close>.
\<close>

theorem insufficient_funds_iff:
  assumes "submitted l req = Inr (tok, tx, from_addr, to_addr)"
    and "get_balances ch s from_addr True = Inr (nb, effective)"
  shows "fst (SendTransactionHandler_post l ch s req) =
           Inl (JSONHTTPError 400 ''insufficient_funds'' ''Insufficient Funds'')
         \<longleftrightarrow> effective < tx_value l tx + tx_startgas l tx * tx_gasprice l tx"
proof (cases "effective < tx_value l tx + tx_startgas l tx * tx_gasprice l tx")
  case True
  with assms show ?thesis
    by (simp add: SendTransactionHandler_post_def check_funds_def)
next
  case False
  with assms have funds: "check_funds l ch s tx from_addr = Inr ()"
    by (simp add: check_funds_def)
  show ?thesis
  proof (cases "check_nonce l ch s tx from_addr")
    case (Inl e)
    with check_nonce_failure [OF Inl] assms(1) funds False show ?thesis
      by (auto simp: SendTransactionHandler_post_def)
  next
    case (Inr u)
    with assms(1) funds False show ?thesis
      by (simp add: SendTransactionHandler_post_def broadcast_not_400)
  qed
qed

lemma cached_or_network_nonce_floor:
  assumes "eth_getTransactionCount ch a = Inr chainN"
    and "map_option py_int (redis s (''nonce:'' @ a)) = map_option Some cached"
  shows "cached_or_network_nonce ch s a = Inr (nonce_floor cached chainN)"
proof (cases cached)
  case None
  with assms show ?thesis
    by (simp add: cached_or_network_nonce_def nonce_floor_def)
next
  case (Some c)
  with assms(2) obtain b where b: "redis s (''nonce:'' @ a) = Some b" "py_int b = Some c"
    by auto
  then have "b \<noteq> []"
    by (auto simp: py_int_def)
  with b Some assms(1) show ?thesis
    by (simp add: cached_or_network_nonce_def nonce_floor_def max_def)
qed

text \<open>
  Claim C3. For a submission that reaches the nonce check, with the node's transaction
  count \<open>chainN\<close> and the cache entry either absent or the text of an integer, the
  handler answers 400 \<open>invalid_nonce\<close> exactly when \<open>tx.nonce\<close> is below
  \<open>nonce_floor cached chainN\<close>, the maximum of the two with an absent entry counting
  as minus infinity; every nonce at or above the floor passes the check, however far
  above; and with no cache entry the floor is the node's value.
\<close>

theorem invalid_nonce_iff:
  assumes "submitted l req = Inr (tok, tx, from_addr, to_addr)"
    and "check_funds l ch s tx from_addr = Inr ()"
    and "eth_getTransactionCount ch from_addr = Inr chainN"
    and "map_option py_int (redis s (''nonce:'' @ from_addr)) = map_option Some cached"
  shows "(fst (SendTransactionHandler_post l ch s req) =
            Inl (JSONHTTPError 400 ''invalid_nonce'' ''Provided nonce is too low'')
          \<longleftrightarrow> tx_nonce l tx < nonce_floor cached chainN)
       \<and> (check_nonce l ch s tx from_addr = Inr () \<longleftrightarrow> nonce_floor cached chainN \<le> tx_nonce l tx)
       \<and> (cached = None \<longrightarrow> nonce_floor cached chainN = chainN)"
proof -
  have fl: "cached_or_network_nonce ch s from_addr = Inr (nonce_floor cached chainN)"
    using assms(3,4) by (rule cached_or_network_nonce_floor)
  show ?thesis
  proof (cases "tx_nonce l tx < nonce_floor cached chainN")
    case True
    with assms(1,2) fl show ?thesis
      by (simp add: SendTransactionHandler_post_def check_nonce_def nonce_floor_def)
  next
    case False
    with assms(1,2) fl show ?thesis
      by (simp add: SendTransactionHandler_post_def check_nonce_def broadcast_not_400
          nonce_floor_def)
  qed
qed

text \<open>
  Claim C8, as amended. For a submission that reaches the broadcast: if
  \<open>eth_sendRawTransaction\<close> fails with a \<^verbatim>\<open>JsonRPCError\<close>, then whatever its
  text \<open>m\<close>, the handler answers status 500 with slug \<open>unexpected_error\<close> and one
  fixed message, in which \<open>m\<close> does not occur, and leaves the stores as they were; if it
  fails with an exception of another class, no clause catches it, the handler writes no
  \<open>unexpected_error\<close> body, and the stores are as they were.
\<close>

theorem broadcast_failure_generic:
  assumes "submitted l req = Inr (tok, tx, from_addr, to_addr)"
    and "check_funds l ch s tx from_addr = Inr ()"
    and "check_nonce l ch s tx from_addr = Inr ()"
  shows "(\<forall>m. eth_sendRawTransaction ch (encode_transaction l tx) = Inl (JsonRPCError m) \<longrightarrow>
            SendTransactionHandler_post l ch s req =
              (Inl (JSONHTTPError 500 ''unexpected_error''
                 ''An error occured communicating with the ethereum network, try again later''),
               s))
       \<and> (\<forall>m. eth_sendRawTransaction ch (encode_transaction l tx) = Inl (OtherException m) \<longrightarrow>
            SendTransactionHandler_post l ch s req =
              (Inl (Uncaught (RPCFailure (OtherException m))), s))"
  using assms by (simp add: SendTransactionHandler_post_def broadcast_and_record_def)

lemma filter_hash_absent:
  "h \<notin> set (map transaction_hash rows) \<Longrightarrow> [r\<leftarrow>rows. transaction_hash r = h] = []"
  by (induction rows) auto

text \<open>
  Claim C2. After a \<^verbatim>\<open>POST /tx\<close> that answers \<open>{tx_hash: h}\<close>, the node has
  accepted the broadcast with hash \<open>h\<close>; the ledger is the old one followed by the one
  row \<open>(h, from, to, str(tx.value), str(tx.startgas * tx.gasprice), token id)\<close>, and it
  is the only row with that hash; the cache entry \<open>nonce:from\<close> reads as
  \<open>tx.nonce + 1\<close>; and the journal shows the cache write before the ledger insert.
\<close>

theorem post_success_records:
  assumes "submitted l req = Inr (tok, tx, from_addr, to_addr)"
    and "SendTransactionHandler_post l ch s req = (Inr h, s')"
  shows "eth_sendRawTransaction ch (encode_transaction l tx) = Inr h
       \<and> db s' = db s @
           [\<lparr>transaction_hash = h, from_address = from_addr, to_address = to_addr,
             value = py_str (tx_value l tx),
             estimated_gas_cost = py_str (tx_startgas l tx * tx_gasprice l tx),
             sender_token_id = tok, confirmed = None\<rparr>]
       \<and> length [r\<leftarrow>db s'. transaction_hash r = h] = 1
       \<and> redis s' = (redis s)(''nonce:'' @ from_addr \<mapsto> py_str (tx_nonce l tx + 1))
       \<and> Option.bind (redis s' (''nonce:'' @ from_addr)) py_int = Some (tx_nonce l tx + 1)
       \<and> journal s' = journal s @
           [CacheSet (''nonce:'' @ from_addr) (py_str (tx_nonce l tx + 1)),
            LedgerInsert (ledger_row l h from_addr to_addr tx tok)]"
proof -
  let ?s1 = "redis_set s (''nonce:'' @ from_addr) (tx_nonce l tx + 1)"
  let ?r = "ledger_row l h from_addr to_addr tx tok"
  from assms have bc: "broadcast_and_record l ch s tok tx from_addr to_addr = (Inr h, s')"
    by (simp add: SendTransactionHandler_post_def split: sum.splits)
  then have sent: "eth_sendRawTransaction ch (encode_transaction l tx) = Inr h"
    by (auto simp: broadcast_and_record_def Let_def split: sum.splits rpc_error.splits)
  with bc have ins: "db_insert ?s1 ?r = Inr s'"
    by (auto simp: broadcast_and_record_def Let_def split: sum.splits)
  then have fresh: "h \<notin> set (map transaction_hash (db s))"
    and s': "s' = ?s1\<lparr>db := db ?s1 @ [?r], journal := journal ?s1 @ [LedgerInsert ?r]\<rparr>"
    by (auto simp: db_insert_def redis_set_def ledger_row_def split: if_splits)
  from s' have d: "db s' = db s @ [?r]"
    by (simp add: redis_set_def)
  from fresh have one: "length [r\<leftarrow>db s'. transaction_hash r = h] = 1"
    by (simp add: d filter_hash_absent ledger_row_def)
  from s' have c: "redis s' = (redis s)(''nonce:'' @ from_addr \<mapsto> py_str (tx_nonce l tx + 1))"
    by (simp add: redis_set_def)
  from s' have j: "journal s' = journal s @
      [CacheSet (''nonce:'' @ from_addr) (py_str (tx_nonce l tx + 1)), LedgerInsert ?r]"
    by (simp add: redis_set_def)
  from sent d one c j show ?thesis
    by (simp add: ledger_row_def py_int_py_str)
qed

lemma submitted_failure_post:
  "submitted l req = Inl e \<Longrightarrow> SendTransactionHandler_post l ch s req = (Inl e, s)"
  by (simp add: SendTransactionHandler_post_def)

text \<open>
  Claim C9. A \<^verbatim>\<open>POST /tx\<close> that ends in a \<open>JSONHTTPError\<close> (any of the 400
  slugs, or the 500 \<open>unexpected_error\<close>) leaves cache, ledger and journal unchanged.
  For every request, either nothing was written, or the broadcast succeeded and the
  one cache write set \<open>nonce:from\<close> to \<open>tx.nonce + 1\<close>, followed by at most the
  ledger insert.
\<close>

theorem post_failure_leaves_stores:
  "(fst (SendTransactionHandler_post l ch s req) = Inl (JSONHTTPError st slug msg)
      \<longrightarrow> snd (SendTransactionHandler_post l ch s req) = s)
   \<and> (snd (SendTransactionHandler_post l ch s req) = s
      \<or> (\<exists>tok tx from_addr to_addr h.
            submitted l req = Inr (tok, tx, from_addr, to_addr)
          \<and> eth_sendRawTransaction ch (encode_transaction l tx) = Inr h
          \<and> redis (snd (SendTransactionHandler_post l ch s req)) =
              (redis s)(''nonce:'' @ from_addr \<mapsto> py_str (tx_nonce l tx + 1))
          \<and> (\<exists>rest. journal (snd (SendTransactionHandler_post l ch s req)) =
                journal s @ CacheSet (''nonce:'' @ from_addr) (py_str (tx_nonce l tx + 1)) # rest
              \<and> (rest = [] \<or> rest = [LedgerInsert (ledger_row l h from_addr to_addr tx tok)]))))"
  by (auto simp: SendTransactionHandler_post_def broadcast_and_record_def Let_def
      db_insert_def redis_set_def split: sum.splits if_splits rpc_error.splits)

text \<open>
  Claim C5. Once the request is authenticated and its \<open>tx\<close> field decodes to \<open>tx\<close>:
  a signed \<open>tx\<close> with a \<open>signature\<close> field that differs from its own signature is
  answered 400 \<open>invalid_signature\<close>; a signed \<open>tx\<close> with the same signature, or none,
  goes on to the derivation of the sender unchanged; an unsigned \<open>tx\<close> without the
  field is answered 400 \<open>missing_signature\<close>; an unsigned \<open>tx\<close> whose signature fails
  \<open>validate_signature\<close> or \<open>data_decoder\<close> is answered 400 \<open>invalid_signature\<close>;
  otherwise the decoded signature is attached, and the sender is derived from the
  transaction with the signature attached.
\<close>

theorem signature_reconcile:
  assumes "authenticate req = Inr tok"
    and "json req ''tx'' = Some raw_tx"
    and "decode_transaction l raw_tx = Some tx"
  shows "(is_transaction_signed l tx
            \<and> (\<exists>sg. json req ''signature'' = Some sg \<and> sg \<noteq> JStr (signature_from_transaction l tx))
          \<longrightarrow> SendTransactionHandler_post l ch s req =
                (Inl (JSONHTTPError 400 ''invalid_signature'' ''Invalid Signature''), s))
       \<and> (is_transaction_signed l tx
            \<and> (json req ''signature'' = Some (JStr (signature_from_transaction l tx))
               \<or> json req ''signature'' = None)
          \<longrightarrow> reconcile_signature l (json req) tx = Inr tx
              \<and> submitted l req = derive_endpoints l tok tx)
       \<and> (\<not> is_transaction_signed l tx \<and> json req ''signature'' = None
          \<longrightarrow> SendTransactionHandler_post l ch s req =
                (Inl (JSONHTTPError 400 ''missing_signature'' ''Missing Signature''), s))
       \<and> (\<not> is_transaction_signed l tx
            \<and> (\<exists>sg. json req ''signature'' = Some sg
                  \<and> (\<not> validate_signature l sg \<or> data_decoder l sg = None))
          \<longrightarrow> SendTransactionHandler_post l ch s req =
                (Inl (JSONHTTPError 400 ''invalid_signature'' ''Invalid Signature''), s))
       \<and> (\<forall>sg raw. \<not> is_transaction_signed l tx \<and> json req ''signature'' = Some sg
            \<and> validate_signature l sg \<and> data_decoder l sg = Some raw
          \<longrightarrow> reconcile_signature l (json req) tx = Inr (add_signature_to_transaction l tx raw)
              \<and> submitted l req =
                  derive_endpoints l tok (add_signature_to_transaction l tx raw))"
proof -
  have sub: "submitted l req =
      (case reconcile_signature l (json req) tx of
         Inl e \<Rightarrow> Inl e
       | Inr tx' \<Rightarrow> derive_endpoints l tok tx')"
    using assms by (simp add: submitted_def)
  have fail: "SendTransactionHandler_post l ch s req = (Inl e, s)"
    if "reconcile_signature l (json req) tx = Inl e" for e
    using that sub by (simp add: submitted_failure_post)
  have c1: "reconcile_signature l (json req) tx =
        Inl (JSONHTTPError 400 ''invalid_signature'' ''Invalid Signature'')"
    if "is_transaction_signed l tx" "json req ''signature'' = Some sg"
       "sg \<noteq> JStr (signature_from_transaction l tx)" for sg
    using that by (auto simp: reconcile_signature_def)
  have c2: "reconcile_signature l (json req) tx = Inr tx"
    if "is_transaction_signed l tx"
       "json req ''signature'' = Some (JStr (signature_from_transaction l tx))
        \<or> json req ''signature'' = None"
    using that by (auto simp: reconcile_signature_def)
  have c3: "reconcile_signature l (json req) tx =
        Inl (JSONHTTPError 400 ''missing_signature'' ''Missing Signature'')"
    if "\<not> is_transaction_signed l tx" "json req ''signature'' = None"
    using that by (simp add: reconcile_signature_def)
  have c4: "reconcile_signature l (json req) tx =
        Inl (JSONHTTPError 400 ''invalid_signature'' ''Invalid Signature'')"
    if "\<not> is_transaction_signed l tx" "json req ''signature'' = Some sg"
       "\<not> validate_signature l sg \<or> data_decoder l sg = None" for sg
    using that by (auto simp: reconcile_signature_def)
  have c5: "reconcile_signature l (json req) tx = Inr (add_signature_to_transaction l tx raw)"
    if "\<not> is_transaction_signed l tx" "json req ''signature'' = Some sg"
       "validate_signature l sg" "data_decoder l sg = Some raw" for sg raw
    using that by (simp add: reconcile_signature_def)
  show ?thesis
    using c1 c2 c3 c4 c5 fail sub by (auto simp del: not_None_eq)
qed

section \<open>The skeleton builder\<close>

text \<open>
  Claim C6. For every valid \<^verbatim>\<open>POST /tx/skeleton\<close> request (the three required
  fields present, both addresses valid, a value that parses and is not zero, and each
  optional field either absent or accepted by \<open>parse_int\<close>): when the nonce is absent,
  with the node's count \<open>chainN\<close> and the cache entry absent or the text of an integer,
  the nonce is \<open>nonce_floor cached chainN\<close> (the node's value when nothing is cached),
  and when it is supplied it is the supplied one; \<open>gas\<close> is \<open>DEFAULT_STARTGAS\<close> when
  the field is absent and \<open>gas_price\<close> is \<open>DEFAULT_GASPRICE\<close> when it is absent,
  whether or not a nonce is supplied; \<open>tx_data\<close> renders nonce, value, startGas and
  gasPrice with \<open>hex\<close>; and a node count of 7 with an empty cache renders as \<open>0x7\<close>.
\<close>

theorem skeleton_defaults:
  assumes "body ''from'' = Some from_addr" and "body ''to'' = Some to_addr"
    and "body ''value'' = Some val"
    and "validate_address l from_addr" and "validate_address l to_addr"
    and "parse_int l val = Some v" and "v \<noteq> 0"
    and "dict_get body ''nonce'' = JNull \<longrightarrow>
           eth_getTransactionCount ch (py_format from_addr) = Inr chainN
         \<and> map_option py_int (redis s (''nonce:'' @ py_format from_addr)) =
             map_option Some cached"
    and "dict_get body ''nonce'' \<noteq> JNull \<longrightarrow> parse_int l (dict_get body ''nonce'') = Some n"
    and "dict_get body ''gas'' \<noteq> JNull \<longrightarrow> parse_int l (dict_get body ''gas'') = Some g"
    and "dict_get body ''gas_price'' \<noteq> JNull \<longrightarrow> parse_int l (dict_get body ''gas_price'') = Some gp"
    and "nonce = (if dict_get body ''nonce'' = JNull then nonce_floor cached chainN else n)"
    and "gas = (if dict_get body ''gas'' = JNull then DEFAULT_STARTGAS l else g)"
    and "gas_price = (if dict_get body ''gas_price'' = JNull then DEFAULT_GASPRICE l else gp)"
  shows "TransactionSkeletonHandler_post l ch s body =
           Inr \<lparr>sk_tx_data =
                  \<lparr>td_nonce = py_hex nonce,
                   td_from = from_addr,
                   td_to = to_addr,
                   td_value = py_hex v,
                   td_startGas = py_hex gas,
                   td_gasPrice = py_hex gas_price\<rparr>,
                sk_tx = encode_transaction l
                  (create_transaction l nonce gas_price gas to_addr v)\<rparr>
       \<and> nonce_floor None chainN = chainN
       \<and> py_hex (nonce_floor None 7) = ''0x7''"
proof -
  have n: "skeleton_nonce l ch s body from_addr = Inr nonce"
  proof (cases "dict_get body ''nonce'' = JNull")
    case True
    with assms(8) have "cached_or_network_nonce ch s (py_format from_addr) =
        Inr (nonce_floor cached chainN)"
      by (intro cached_or_network_nonce_floor) simp_all
    with True assms(12) show ?thesis
      by (simp add: skeleton_nonce_def)
  next
    case False
    with assms(9,12) show ?thesis
      by (simp add: skeleton_nonce_def)
  qed
  have g: "skeleton_gas l body = Inr gas"
    using assms(10,13) by (simp add: skeleton_gas_def)
  have p: "skeleton_gas_price l body = Inr gas_price"
    using assms(11,14) by (simp add: skeleton_gas_price_def)
  have h: "py_hex (nonce_floor None 7) = ''0x7''"
    by (simp add: nonce_floor_def py_hex_def render_nat.simps digit_char_def)
  show ?thesis
    using assms(1-7) n g p h
    by (simp add: TransactionSkeletonHandler_post_def nonce_floor_def)
qed

lemma skeleton_nonce_supplied:
  "dict_get body ''nonce'' \<noteq> JNull \<Longrightarrow>
     skeleton_nonce l ch s body a = skeleton_nonce l ch' s' body a"
  by (simp add: skeleton_nonce_def)

text \<open>
  Claim C10. When the request supplies a nonce that \<open>parse_int\<close> accepts, the answer
  is the same for every cache, ledger and node; whenever a skeleton is returned, its
  \<open>tx_data.nonce\<close> is the hex of the supplied nonce and its \<open>tx\<close> encodes a
  transaction created with that nonce; and a valid request without gas fields is
  answered with the skeleton for the supplied nonce. No floor is applied.
\<close>

theorem skeleton_supplied_nonce:
  assumes "dict_get body ''nonce'' \<noteq> JNull"
    and "parse_int l (dict_get body ''nonce'') = Some n"
  shows "TransactionSkeletonHandler_post l ch s body = TransactionSkeletonHandler_post l ch' s' body
       \<and> (\<forall>r. TransactionSkeletonHandler_post l ch s body = Inr r \<longrightarrow>
             td_nonce (sk_tx_data r) = py_hex n
           \<and> (\<exists>gas_price gas to_addr v.
                sk_tx r = encode_transaction l (create_transaction l n gas_price gas to_addr v)))
       \<and> (\<forall>from_addr to_addr val v.
             body ''from'' = Some from_addr \<and> body ''to'' = Some to_addr
           \<and> body ''value'' = Some val
           \<and> validate_address l from_addr \<and> validate_address l to_addr
           \<and> parse_int l val = Some v \<and> v \<noteq> 0
           \<and> dict_get body ''gas'' = JNull \<and> dict_get body ''gas_price'' = JNull \<longrightarrow>
             TransactionSkeletonHandler_post l ch s body =
               Inr \<lparr>sk_tx_data =
                      \<lparr>td_nonce = py_hex n, td_from = from_addr, td_to = to_addr,
                       td_value = py_hex v,
                       td_startGas = py_hex (DEFAULT_STARTGAS l),
                       td_gasPrice = py_hex (DEFAULT_GASPRICE l)\<rparr>,
                    sk_tx = encode_transaction l
                      (create_transaction l n (DEFAULT_GASPRICE l) (DEFAULT_STARTGAS l)
                         to_addr v)\<rparr>)"
proof -
  have n: "skeleton_nonce l c t body a = Inr n" for c t a
    using assms by (simp add: skeleton_nonce_def)
  have indep: "TransactionSkeletonHandler_post l ch s body =
      TransactionSkeletonHandler_post l ch' s' body"
    by (simp add: TransactionSkeletonHandler_post_def n split: option.splits)
  have echo: "td_nonce (sk_tx_data r) = py_hex n
      \<and> (\<exists>gas_price gas to_addr v.
            sk_tx r = encode_transaction l (create_transaction l n gas_price gas to_addr v))"
    if "TransactionSkeletonHandler_post l ch s body = Inr r" for r
    using that
    by (auto simp: TransactionSkeletonHandler_post_def n
        split: option.splits if_splits sum.splits) blast
  have full: "TransactionSkeletonHandler_post l ch s body =
      Inr \<lparr>sk_tx_data =
             \<lparr>td_nonce = py_hex n, td_from = from_addr, td_to = to_addr,
              td_value = py_hex v,
              td_startGas = py_hex (DEFAULT_STARTGAS l),
              td_gasPrice = py_hex (DEFAULT_GASPRICE l)\<rparr>,
           sk_tx = encode_transaction l
             (create_transaction l n (DEFAULT_GASPRICE l) (DEFAULT_STARTGAS l) to_addr v)\<rparr>"
    if "body ''from'' = Some from_addr" "body ''to'' = Some to_addr"
       "body ''value'' = Some val"
       "validate_address l from_addr" "validate_address l to_addr"
       "parse_int l val = Some v" "v \<noteq> 0"
       "dict_get body ''gas'' = JNull" "dict_get body ''gas_price'' = JNull"
    for from_addr to_addr val v
    using that
    by (simp add: TransactionSkeletonHandler_post_def n skeleton_gas_def skeleton_gas_price_def)
  from indep echo full show ?thesis
    by blast
qed

section \<open>The handlers on the sample requests\<close>

lemma sample_distinct:
  "addr_a \<noteq> addr_b" "addr_b \<noteq> addr_a" "addr_a \<noteq> addr_c" "addr_c \<noteq> addr_a"
  "addr_b \<noteq> addr_c" "addr_c \<noteq> addr_b"
  "hash_1 \<noteq> hash_7" "hash_1 \<noteq> hash_8" "hash_1 \<noteq> hash_9"
  "hash_7 \<noteq> hash_1" "hash_8 \<noteq> hash_1" "hash_9 \<noteq> hash_1"
  "sig_a \<noteq> sig_b" "sig_b \<noteq> sig_a"
  by (simp_all add: addr_a_def addr_b_def addr_c_def hash_1_def hash_7_def hash_8_def
      hash_9_def sig_a_def sig_b_def)

lemma sample_valid:
  "validate_address sample_lib (JStr addr_a)"
  "validate_address sample_lib (JStr addr_b)"
  "validate_signature sample_lib (JStr sig_a)"
  "\<not> validate_signature sample_lib (JStr ''0x55'')"
  by (simp_all add: sample_lib_def hex_string_def is_hex_char_def addr_a_def addr_b_def
      sig_a_def)

lemma sample_parse:
  "parse_int sample_lib (JInt n) = Some n"
  "parse_int sample_lib (JStr ''0x64'') = Some 100"
  by (simp_all add: sample_lib_def sample_parse_int_def hex_val_def)

lemma sample_codec:
  "decode_transaction sample_lib (JStr ''0xe009'') = Some unsigned_tx"
  "decode_transaction sample_lib (JStr ''0xf809'') = Some signed_tx"
  "is_transaction_signed sample_lib signed_tx"
  "\<not> is_transaction_signed sample_lib unsigned_tx"
  "signature_from_transaction sample_lib signed_tx = sig_a"
  "add_signature_to_transaction sample_lib unsigned_tx sig_a = signed_tx"
  "data_decoder sample_lib (JStr t) = Some t"
  "data_encoder sample_lib b = b"
  "encode_transaction sample_lib (create_transaction sample_lib n gp g j v) =
     ''0xe0'' @ render_nat 16 (nat n)"
  by (simp_all add: sample_lib_def signed_tx_def unsigned_tx_def)

lemma sample_tx_fields:
  "tx_nonce sample_lib signed_tx = 9"
  "tx_value sample_lib signed_tx = 20"
  "tx_startgas sample_lib signed_tx = 5"
  "tx_gasprice sample_lib signed_tx = 2"
  "tx_to sample_lib signed_tx = addr_b"
  "tx_sender sample_lib signed_tx = Some addr_a"
  "encode_transaction sample_lib signed_tx = ''0xe09''"
  by (simp_all add: sample_lib_def signed_tx_def unsigned_tx_def render_nat.simps
      digit_char_def)

lemma sample_defaults:
  "DEFAULT_STARTGAS sample_lib = 21000"
  "DEFAULT_GASPRICE sample_lib = 20000000000"
  by (simp_all add: sample_lib_def)

lemma sample_node:
  "eth_getBalance sample_chain addr_a = Inr 1000"
  "eth_getTransactionCount sample_chain addr_a = Inr 7"
  "eth_sendRawTransaction sample_chain t = Inr hash_1"
  "eth_getBalance poor_chain a = Inr 40"
  "eth_getBalance failing_chain addr_a = Inr 1000"
  "eth_getTransactionCount failing_chain addr_a = Inr 7"
  "eth_sendRawTransaction failing_chain t = Inl (JsonRPCError ''nonce too low'')"
  "eth_getBalance unreachable_chain addr_a = Inr 1000"
  "eth_getTransactionCount unreachable_chain addr_a = Inr 7"
  "eth_sendRawTransaction unreachable_chain t = Inl (OtherException ''connection refused'')"
  by (simp_all add: sample_chain_def poor_chain_def failing_chain_def unreachable_chain_def)

lemma sample_stores:
  "db pending_state = pending_rows" "db sample_state = sample_rows"
  "db cached_state = sample_rows" "db stale_state = sample_rows"
  "redis sample_state k = None"
  "journal cached_state = []"
  by (simp_all add: pending_state_def sample_state_def cached_state_def stale_state_def)

lemma sample_cache [simplified]:
  "redis cached_state (''nonce:'' @ addr_a) = Some ''9''"
  "redis stale_state (''nonce:'' @ addr_a) = Some ''12''"
  by (simp_all add: sample_state_def cached_state_def stale_state_def)

lemma sample_decimal:
  "py_int ''4'' = Some 4" "py_int ''9'' = Some 9" "py_int ''10'' = Some 10"
  "py_int ''12'' = Some 12" "py_int ''20'' = Some 20" "py_int ''50'' = Some 50"
  "py_int ''300'' = Some 300" "py_str 10 = ''10''"
  by (simp_all add: py_int_def digit_val_def py_str_def render_nat.simps digit_char_def)

lemma sample_hex:
  "py_hex 3 = ''0x3''" "py_hex 7 = ''0x7''" "py_hex 100 = ''0x64''"
  "py_hex 21000 = ''0x5208''" "py_hex 20000000000 = ''0x4a817c800''"
  "render_nat 16 3 = ''3''" "render_nat 16 7 = ''7''"
  by (simp_all add: py_hex_def render_nat.simps digit_char_def)

lemma sample_balances:
  "get_balances sample_chain pending_state addr_a False = Inr (1000, 1020)"
  "get_balances sample_chain sample_state addr_a False = Inr (1000, 1020)"
  "get_balances sample_chain sample_state addr_a True = Inr (1000, 970)"
  "get_balances sample_chain cached_state addr_a True = Inr (1000, 970)"
  "get_balances sample_chain stale_state addr_a True = Inr (1000, 970)"
  "get_balances failing_chain cached_state addr_a True = Inr (1000, 970)"
  "get_balances unreachable_chain cached_state addr_a True = Inr (1000, 970)"
  "get_balances poor_chain sample_state addr_a True = Inr (40, 10)"
  by (simp_all add: get_balances_def fetch_pending_sent_def fetch_pending_recieved_def
      sample_node sample_stores sample_rows_def pending_rows_def sample_distinct
      sample_decimal)

theorem get_balances_identity_witness:
  "eth_getBalance sample_chain addr_a = Inr 1000
   \<and> list_all (\<lambda>r. py_int (value r) \<noteq> None \<and> py_int (estimated_gas_cost r) \<noteq> None)
        (db sample_state)
   \<and> get_balances sample_chain sample_state addr_a False = Inr (1000, 1020)
   \<and> get_balances sample_chain sample_state addr_a True = Inr (1000, 970)"
  using get_balances_identity [of sample_chain addr_a 1000 sample_state]
  by (simp add: sample_node sample_stores sample_rows_def pending_rows_def sample_distinct
      sample_decimal)

theorem balance_rendering_witness:
  "BalanceHandler_get sample_lib sample_chain pending_state addr_a =
     Inr \<lparr>confirmed_balance = ''0x3e8'', unconfirmed_balance = ''0x3fc''\<rparr>"
  using balance_rendering [of sample_lib addr_a sample_chain pending_state
      "pending_rows ! 0" "pending_rows ! 1"]
  by (simp add: sample_valid sample_node sample_stores pending_rows_def sample_distinct)

theorem balance_rendering_counterexample:
  "BalanceHandler_get sample_lib sample_chain pending_state addr_a \<noteq>
     Inr \<lparr>confirmed_balance = ''0x3e8'', unconfirmed_balance = ''0x40c''\<rparr>"
  by (simp add: BalanceHandler_get_def sample_valid sample_balances py_hex_1020)

lemma signed_submitted:
  "submitted sample_lib signed_request = Inr (None, signed_tx, addr_a, addr_b)"
  by (simp add: submitted_def authenticate_def reconcile_signature_def derive_endpoints_def
      signed_request_def sample_codec sample_tx_fields)

lemma signed_funds:
  "check_funds sample_lib sample_chain cached_state signed_tx addr_a = Inr ()"
  "check_funds sample_lib sample_chain stale_state signed_tx addr_a = Inr ()"
  "check_funds sample_lib failing_chain cached_state signed_tx addr_a = Inr ()"
  "check_funds sample_lib unreachable_chain cached_state signed_tx addr_a = Inr ()"
  by (simp_all add: check_funds_def sample_balances sample_tx_fields)

lemma signed_nonce:
  "check_nonce sample_lib sample_chain cached_state signed_tx addr_a = Inr ()"
  "check_nonce sample_lib failing_chain cached_state signed_tx addr_a = Inr ()"
  "check_nonce sample_lib unreachable_chain cached_state signed_tx addr_a = Inr ()"
  by (simp_all add: check_nonce_def cached_or_network_nonce_def sample_cache sample_node
      sample_decimal sample_tx_fields)

lemma signed_post:
  "SendTransactionHandler_post sample_lib sample_chain cached_state signed_request =
     (Inr hash_1,
      \<lparr>redis = [''nonce:'' @ addr_a \<mapsto> ''10''],
       db = sample_rows @
         [\<lparr>transaction_hash = hash_1, from_address = addr_a, to_address = addr_b,
           value = ''20'', estimated_gas_cost = ''10'', sender_token_id = None,
           confirmed = None\<rparr>],
       journal =
         [CacheSet (''nonce:'' @ addr_a) ''10'',
          LedgerInsert
            \<lparr>transaction_hash = hash_1, from_address = addr_a, to_address = addr_b,
             value = ''20'', estimated_gas_cost = ''10'', sender_token_id = None,
             confirmed = None\<rparr>]\<rparr>)"
proof -
  have s20: "py_str 20 = ''20''"
    by (simp add: py_str_def render_nat.simps digit_char_def)
  have "SendTransactionHandler_post sample_lib sample_chain cached_state signed_request =
      broadcast_and_record sample_lib sample_chain cached_state None signed_tx addr_a addr_b"
    by (simp add: SendTransactionHandler_post_def signed_submitted signed_funds signed_nonce)
  then show ?thesis
    by (simp add: broadcast_and_record_def redis_set_def db_insert_def ledger_row_def
        sample_tx_fields sample_node s20 sample_decimal cached_state_def sample_state_def
        sample_rows_def pending_rows_def sample_distinct)
qed

theorem post_success_records_witness:
  "fst (SendTransactionHandler_post sample_lib sample_chain cached_state signed_request) =
     Inr hash_1
   \<and> length [r\<leftarrow>db (snd (SendTransactionHandler_post sample_lib sample_chain cached_state
        signed_request)). transaction_hash r = hash_1] = 1
   \<and> redis (snd (SendTransactionHandler_post sample_lib sample_chain cached_state
        signed_request)) (''nonce:'' @ addr_a) = Some ''10''
   \<and> journal (snd (SendTransactionHandler_post sample_lib sample_chain cached_state
        signed_request)) =
       [CacheSet (''nonce:'' @ addr_a) ''10'',
        LedgerInsert
          \<lparr>transaction_hash = hash_1, from_address = addr_a, to_address = addr_b,
           value = ''20'', estimated_gas_cost = ''10'', sender_token_id = None,
           confirmed = None\<rparr>]"
proof -
  note t = post_success_records [OF signed_submitted signed_post]
  from t have one: "length [r\<leftarrow>sample_rows @
         [\<lparr>transaction_hash = hash_1, from_address = addr_a, to_address = addr_b,
           value = ''20'', estimated_gas_cost = ''10'', sender_token_id = None,
           confirmed = None\<rparr>]. transaction_hash r = hash_1] = 1"
    by simp
  show ?thesis
    unfolding signed_post using one by simp
qed

theorem invalid_nonce_iff_witness:
  "fst (SendTransactionHandler_post sample_lib sample_chain stale_state signed_request) =
     Inl (JSONHTTPError 400 ''invalid_nonce'' ''Provided nonce is too low'')
   \<and> nonce_floor (Some 12) 7 = 12
   \<and> check_nonce sample_lib sample_chain cached_state signed_tx addr_a = Inr ()
   \<and> nonce_floor (Some 9) 7 = 9"
proof -
  have f12: "nonce_floor (Some 12) 7 = 12" and f9: "nonce_floor (Some 9) 7 = 9"
    by (simp_all add: nonce_floor_def)
  have stale: "map_option py_int (redis stale_state (''nonce:'' @ addr_a)) =
      map_option Some (Some 12)"
    and cached: "map_option py_int (redis cached_state (''nonce:'' @ addr_a)) =
      map_option Some (Some 9)"
    by (simp_all add: sample_cache sample_decimal)
  note low = invalid_nonce_iff [OF signed_submitted signed_funds(2) sample_node(2) stale]
  note ok = invalid_nonce_iff [OF signed_submitted signed_funds(1) sample_node(2) cached]
  from low ok show ?thesis
    by (simp add: f12 f9 sample_tx_fields)
qed

theorem insufficient_funds_iff_witness:
  "fst (SendTransactionHandler_post sample_lib poor_chain sample_state signed_request) =
     Inl (JSONHTTPError 400 ''insufficient_funds'' ''Insufficient Funds'')
   \<and> get_balances poor_chain sample_state addr_a True = Inr (40, 10)
   \<and> fst (SendTransactionHandler_post sample_lib sample_chain cached_state signed_request) \<noteq>
     Inl (JSONHTTPError 400 ''insufficient_funds'' ''Insufficient Funds'')
   \<and> get_balances sample_chain cached_state addr_a True = Inr (1000, 970)"
proof -
  note lo = insufficient_funds_iff [OF signed_submitted sample_balances(8)]
  note hi = insufficient_funds_iff [OF signed_submitted sample_balances(4)]
  from lo hi show ?thesis
    by (simp add: sample_tx_fields sample_balances)
qed

theorem broadcast_failure_generic_witness:
  "SendTransactionHandler_post sample_lib failing_chain cached_state signed_request =
     (Inl (JSONHTTPError 500 ''unexpected_error''
        ''An error occured communicating with the ethereum network, try again later''),
      cached_state)
   \<and> SendTransactionHandler_post sample_lib unreachable_chain cached_state signed_request =
     (Inl (Uncaught (RPCFailure (OtherException ''connection refused''))), cached_state)"
proof -
  note caught = broadcast_failure_generic [OF signed_submitted signed_funds(3) signed_nonce(2)]
  note escapes = broadcast_failure_generic [OF signed_submitted signed_funds(4) signed_nonce(3)]
  from caught escapes show ?thesis
    by (simp add: sample_node)
qed

theorem broadcast_failure_counterexample:
  "eth_sendRawTransaction unreachable_chain (encode_transaction sample_lib signed_tx) =
     Inl (OtherException ''connection refused'')
   \<and> fst (SendTransactionHandler_post sample_lib unreachable_chain cached_state
        signed_request) \<noteq>
     Inl (JSONHTTPError 500 ''unexpected_error''
        ''An error occured communicating with the ethereum network, try again later'')"
  by (simp add: SendTransactionHandler_post_def signed_submitted signed_funds signed_nonce
      broadcast_and_record_def sample_node)

theorem post_failure_leaves_stores_witness:
  "fst (SendTransactionHandler_post sample_lib failing_chain cached_state signed_request) =
     Inl (JSONHTTPError 500 ''unexpected_error''
        ''An error occured communicating with the ethereum network, try again later'')
   \<and> snd (SendTransactionHandler_post sample_lib failing_chain cached_state signed_request) =
     cached_state"
proof -
  have f: "fst (SendTransactionHandler_post sample_lib failing_chain cached_state
      signed_request) =
      Inl (JSONHTTPError 500 ''unexpected_error''
        ''An error occured communicating with the ethereum network, try again later'')"
    by (simp add: SendTransactionHandler_post_def signed_submitted signed_funds(3)
        signed_nonce(2) broadcast_and_record_def sample_node)
  note t = post_failure_leaves_stores [of sample_lib failing_chain cached_state
        signed_request 500 "''unexpected_error''"
        "''An error occured communicating with the ethereum network, try again later''"]
  from t f show ?thesis
    by blast
qed

lemma sample_auth:
  "authenticate conflicting_request = Inr None"
  "authenticate signed_request = Inr None"
  "authenticate bare_request = Inr None"
  "authenticate malformed_request = Inr None"
  "authenticate unsigned_request = Inr (Some ''token'')"
  by (simp_all add: authenticate_def conflicting_request_def signed_request_def
      bare_request_def malformed_request_def unsigned_request_def)

lemma sample_tx_field:
  "json conflicting_request ''tx'' = Some (JStr ''0xf809'')"
  "json signed_request ''tx'' = Some (JStr ''0xf809'')"
  "json bare_request ''tx'' = Some (JStr ''0xe009'')"
  "json malformed_request ''tx'' = Some (JStr ''0xe009'')"
  "json unsigned_request ''tx'' = Some (JStr ''0xe009'')"
  by (simp_all add: conflicting_request_def signed_request_def
      bare_request_def malformed_request_def unsigned_request_def)

lemma sample_signature_field:
  "json conflicting_request ''signature'' = Some (JStr sig_b)"
  "json signed_request ''signature'' = None"
  "json bare_request ''signature'' = None"
  "json malformed_request ''signature'' = Some (JStr ''0x55'')"
  "json unsigned_request ''signature'' = Some (JStr sig_a)"
  by (simp_all add: conflicting_request_def signed_request_def
      bare_request_def malformed_request_def unsigned_request_def)

lemma sample_endpoints:
  "derive_endpoints sample_lib tok signed_tx = Inr (tok, signed_tx, addr_a, addr_b)"
  by (simp add: derive_endpoints_def sample_tx_fields sample_codec)

theorem signature_reconcile_witness:
  "SendTransactionHandler_post sample_lib sample_chain sample_state conflicting_request =
     (Inl (JSONHTTPError 400 ''invalid_signature'' ''Invalid Signature''), sample_state)
   \<and> submitted sample_lib signed_request = Inr (None, signed_tx, addr_a, addr_b)
   \<and> SendTransactionHandler_post sample_lib sample_chain sample_state bare_request =
     (Inl (JSONHTTPError 400 ''missing_signature'' ''Missing Signature''), sample_state)
   \<and> SendTransactionHandler_post sample_lib sample_chain sample_state malformed_request =
     (Inl (JSONHTTPError 400 ''invalid_signature'' ''Invalid Signature''), sample_state)
   \<and> submitted sample_lib unsigned_request = Inr (Some ''token'', signed_tx, addr_a, addr_b)"
proof -
  note t1 = signature_reconcile [OF sample_auth(1) sample_tx_field(1) sample_codec(2),
      of sample_chain sample_state]
  note t2 = signature_reconcile [OF sample_auth(2) sample_tx_field(2) sample_codec(2),
      of sample_chain sample_state]
  note t3 = signature_reconcile [OF sample_auth(3) sample_tx_field(3) sample_codec(1),
      of sample_chain sample_state]
  note t4 = signature_reconcile [OF sample_auth(4) sample_tx_field(4) sample_codec(1),
      of sample_chain sample_state]
  note t5 = signature_reconcile [OF sample_auth(5) sample_tx_field(5) sample_codec(1),
      of sample_chain sample_state]
  have c1: "SendTransactionHandler_post sample_lib sample_chain sample_state
      conflicting_request =
      (Inl (JSONHTTPError 400 ''invalid_signature'' ''Invalid Signature''), sample_state)"
    using t1 by (simp add: sample_codec sample_signature_field sample_distinct)
  have c2: "submitted sample_lib signed_request = Inr (None, signed_tx, addr_a, addr_b)"
    using t2 by (simp add: sample_codec sample_signature_field sample_endpoints)
  have c3: "SendTransactionHandler_post sample_lib sample_chain sample_state bare_request =
      (Inl (JSONHTTPError 400 ''missing_signature'' ''Missing Signature''), sample_state)"
    using t3 by (simp add: sample_codec sample_signature_field)
  have c4: "SendTransactionHandler_post sample_lib sample_chain sample_state
      malformed_request =
      (Inl (JSONHTTPError 400 ''invalid_signature'' ''Invalid Signature''), sample_state)"
    using t4 by (simp add: sample_codec sample_signature_field sample_valid)
  have c5: "submitted sample_lib unsigned_request =
      Inr (Some ''token'', signed_tx, addr_a, addr_b)"
    using t5
    by (simp add: sample_codec sample_signature_field sample_valid sample_endpoints)
  from c1 c2 c3 c4 c5 show ?thesis
    by simp
qed

lemma skeleton_fields:
  "skeleton_body ''from'' = Some (JStr addr_a)"
  "skeleton_body ''to'' = Some (JStr addr_b)"
  "skeleton_body ''value'' = Some (JStr ''0x64'')"
  "dict_get skeleton_body ''nonce'' = JNull"
  "dict_get skeleton_body ''gas'' = JNull"
  "dict_get skeleton_body ''gas_price'' = JNull"
  by (simp_all add: skeleton_body_def dict_get_def)

lemma nonce_fields:
  "nonce_body ''from'' = Some (JStr addr_a)"
  "nonce_body ''to'' = Some (JStr addr_b)"
  "nonce_body ''value'' = Some (JStr ''0x64'')"
  "dict_get nonce_body ''nonce'' = JInt 3"
  "dict_get nonce_body ''gas'' = JNull"
  "dict_get nonce_body ''gas_price'' = JNull"
  by (simp_all add: nonce_body_def skeleton_body_def dict_get_def)

lemma priced_fields:
  "priced_body ''from'' = Some (JStr addr_a)"
  "priced_body ''to'' = Some (JStr addr_b)"
  "priced_body ''value'' = Some (JStr ''0x64'')"
  "dict_get priced_body ''nonce'' = JInt 3"
  "dict_get priced_body ''gas'' = JStr ''0x5300''"
  "dict_get priced_body ''gas_price'' = JInt 255"
  by (simp_all add: priced_body_def nonce_body_def skeleton_body_def dict_get_def)

lemma sample_parse_gas: "parse_int sample_lib (JStr ''0x5300'') = Some 21248"
  by (simp add: sample_lib_def sample_parse_int_def hex_val_def)

lemma sample_hex_gas: "py_hex 21248 = ''0x5300''" "py_hex 255 = ''0xff''" "py_hex 9 = ''0x9''"
  by (simp_all add: py_hex_def render_nat.simps digit_char_def)

theorem skeleton_defaults_witness:
  "TransactionSkeletonHandler_post sample_lib sample_chain sample_state skeleton_body =
     Inr \<lparr>sk_tx_data =
            \<lparr>td_nonce = ''0x7'', td_from = JStr addr_a, td_to = JStr addr_b,
             td_value = ''0x64'', td_startGas = ''0x5208'', td_gasPrice = ''0x4a817c800''\<rparr>,
          sk_tx = ''0xe07''\<rparr>
   \<and> TransactionSkeletonHandler_post sample_lib sample_chain cached_state skeleton_body =
     Inr \<lparr>sk_tx_data =
            \<lparr>td_nonce = ''0x9'', td_from = JStr addr_a, td_to = JStr addr_b,
             td_value = ''0x64'', td_startGas = ''0x5208'', td_gasPrice = ''0x4a817c800''\<rparr>,
          sk_tx = ''0xe09''\<rparr>
   \<and> TransactionSkeletonHandler_post sample_lib sample_chain sample_state nonce_body =
     Inr \<lparr>sk_tx_data =
            \<lparr>td_nonce = ''0x3'', td_from = JStr addr_a, td_to = JStr addr_b,
             td_value = ''0x64'', td_startGas = ''0x5208'', td_gasPrice = ''0x4a817c800''\<rparr>,
          sk_tx = ''0xe03''\<rparr>
   \<and> TransactionSkeletonHandler_post sample_lib sample_chain sample_state priced_body =
     Inr \<lparr>sk_tx_data =
            \<lparr>td_nonce = ''0x3'', td_from = JStr addr_a, td_to = JStr addr_b,
             td_value = ''0x64'', td_startGas = ''0x5300'', td_gasPrice = ''0xff''\<rparr>,
          sk_tx = ''0xe03''\<rparr>"
proof -
  have v: "(100::int) \<noteq> 0" by simp
  have empty: "dict_get skeleton_body ''nonce'' = JNull \<longrightarrow>
      eth_getTransactionCount sample_chain (py_format (JStr addr_a)) = Inr 7
      \<and> map_option py_int (redis sample_state (''nonce:'' @ py_format (JStr addr_a))) =
          map_option Some None"
    by (simp add: sample_node sample_stores)
  have lead: "dict_get skeleton_body ''nonce'' = JNull \<longrightarrow>
      eth_getTransactionCount sample_chain (py_format (JStr addr_a)) = Inr 7
      \<and> map_option py_int (redis cached_state (''nonce:'' @ py_format (JStr addr_a))) =
          map_option Some (Some 9)"
    by (simp add: sample_node sample_cache sample_decimal)
  have given: "dict_get nonce_body ''nonce'' = JNull \<longrightarrow>
      eth_getTransactionCount sample_chain (py_format (JStr addr_a)) = Inr 7
      \<and> map_option py_int (redis sample_state (''nonce:'' @ py_format (JStr addr_a))) =
          map_option Some None"
    and given': "dict_get priced_body ''nonce'' = JNull \<longrightarrow>
      eth_getTransactionCount sample_chain (py_format (JStr addr_a)) = Inr 7
      \<and> map_option py_int (redis sample_state (''nonce:'' @ py_format (JStr addr_a))) =
          map_option Some None"
    by (simp_all add: nonce_fields priced_fields)
  have n0: "dict_get skeleton_body ''nonce'' \<noteq> JNull \<longrightarrow>
      parse_int sample_lib (dict_get skeleton_body ''nonce'') = Some 0"
    and n3: "dict_get nonce_body ''nonce'' \<noteq> JNull \<longrightarrow>
      parse_int sample_lib (dict_get nonce_body ''nonce'') = Some 3"
    and n3': "dict_get priced_body ''nonce'' \<noteq> JNull \<longrightarrow>
      parse_int sample_lib (dict_get priced_body ''nonce'') = Some 3"
    by (simp_all add: skeleton_fields nonce_fields priced_fields sample_parse)
  have g0: "dict_get skeleton_body ''gas'' \<noteq> JNull \<longrightarrow>
      parse_int sample_lib (dict_get skeleton_body ''gas'') = Some 0"
    and p0: "dict_get skeleton_body ''gas_price'' \<noteq> JNull \<longrightarrow>
      parse_int sample_lib (dict_get skeleton_body ''gas_price'') = Some 0"
    and g1: "dict_get nonce_body ''gas'' \<noteq> JNull \<longrightarrow>
      parse_int sample_lib (dict_get nonce_body ''gas'') = Some 0"
    and p1: "dict_get nonce_body ''gas_price'' \<noteq> JNull \<longrightarrow>
      parse_int sample_lib (dict_get nonce_body ''gas_price'') = Some 0"
    and g2: "dict_get priced_body ''gas'' \<noteq> JNull \<longrightarrow>
      parse_int sample_lib (dict_get priced_body ''gas'') = Some 21248"
    and p2: "dict_get priced_body ''gas_price'' \<noteq> JNull \<longrightarrow>
      parse_int sample_lib (dict_get priced_body ''gas_price'') = Some 255"
    by (simp_all add: skeleton_fields nonce_fields priced_fields sample_parse sample_parse_gas)
  note t1 = skeleton_defaults [OF skeleton_fields(1-3) sample_valid(1,2) sample_parse(2) v
      empty n0 g0 p0 refl refl refl]
  note t2 = skeleton_defaults [OF skeleton_fields(1-3) sample_valid(1,2) sample_parse(2) v
      lead n0 g0 p0 refl refl refl]
  note t3 = skeleton_defaults [OF nonce_fields(1-3) sample_valid(1,2) sample_parse(2) v
      given n3 g1 p1 refl refl refl]
  note t4 = skeleton_defaults [OF priced_fields(1-3) sample_valid(1,2) sample_parse(2) v
      given' n3' g2 p2 refl refl refl]
  have c1: "TransactionSkeletonHandler_post sample_lib sample_chain sample_state skeleton_body =
     Inr \<lparr>sk_tx_data =
            \<lparr>td_nonce = ''0x7'', td_from = JStr addr_a, td_to = JStr addr_b,
             td_value = ''0x64'', td_startGas = ''0x5208'', td_gasPrice = ''0x4a817c800''\<rparr>,
          sk_tx = ''0xe07''\<rparr>"
    using t1
    by (simp add: skeleton_fields sample_defaults sample_codec nonce_floor_def sample_hex)
  have c2: "TransactionSkeletonHandler_post sample_lib sample_chain cached_state skeleton_body =
     Inr \<lparr>sk_tx_data =
            \<lparr>td_nonce = ''0x9'', td_from = JStr addr_a, td_to = JStr addr_b,
             td_value = ''0x64'', td_startGas = ''0x5208'', td_gasPrice = ''0x4a817c800''\<rparr>,
          sk_tx = ''0xe09''\<rparr>"
    using t2
    by (simp add: skeleton_fields sample_defaults sample_codec nonce_floor_def sample_hex
        sample_hex_gas render_nat.simps digit_char_def)
  have c3: "TransactionSkeletonHandler_post sample_lib sample_chain sample_state nonce_body =
     Inr \<lparr>sk_tx_data =
            \<lparr>td_nonce = ''0x3'', td_from = JStr addr_a, td_to = JStr addr_b,
             td_value = ''0x64'', td_startGas = ''0x5208'', td_gasPrice = ''0x4a817c800''\<rparr>,
          sk_tx = ''0xe03''\<rparr>"
    using t3
    by (simp add: nonce_fields sample_defaults sample_codec sample_hex)
  have c4: "TransactionSkeletonHandler_post sample_lib sample_chain sample_state priced_body =
     Inr \<lparr>sk_tx_data =
            \<lparr>td_nonce = ''0x3'', td_from = JStr addr_a, td_to = JStr addr_b,
             td_value = ''0x64'', td_startGas = ''0x5300'', td_gasPrice = ''0xff''\<rparr>,
          sk_tx = ''0xe03''\<rparr>"
    using t4
    by (simp add: priced_fields sample_codec sample_hex sample_hex_gas)
  from c1 c2 c3 c4 show ?thesis
    by simp
qed

theorem skeleton_supplied_nonce_witness:
  "TransactionSkeletonHandler_post sample_lib sample_chain sample_state nonce_body =
     Inr \<lparr>sk_tx_data =
            \<lparr>td_nonce = ''0x3'', td_from = JStr addr_a, td_to = JStr addr_b,
             td_value = ''0x64'', td_startGas = ''0x5208'', td_gasPrice = ''0x4a817c800''\<rparr>,
          sk_tx = ''0xe03''\<rparr>
   \<and> eth_getTransactionCount sample_chain addr_a = Inr 7"
proof -
  have nz: "dict_get nonce_body ''nonce'' \<noteq> JNull"
    by (simp add: nonce_fields)
  have pn: "parse_int sample_lib (dict_get nonce_body ''nonce'') = Some 3"
    by (simp add: nonce_fields sample_parse)
  note t = skeleton_supplied_nonce [OF nz pn, of sample_chain sample_state
      sample_chain sample_state]
  note full = t [THEN conjunct2, THEN conjunct2, rule_format,
      of "JStr addr_a" "JStr addr_b" "JStr ''0x64''" 100]
  have "TransactionSkeletonHandler_post sample_lib sample_chain sample_state nonce_body =
      Inr \<lparr>sk_tx_data =
             \<lparr>td_nonce = py_hex 3, td_from = JStr addr_a, td_to = JStr addr_b,
              td_value = py_hex 100,
              td_startGas = py_hex (DEFAULT_STARTGAS sample_lib),
              td_gasPrice = py_hex (DEFAULT_GASPRICE sample_lib)\<rparr>,
           sk_tx = encode_transaction sample_lib
             (create_transaction sample_lib 3 (DEFAULT_GASPRICE sample_lib)
                (DEFAULT_STARTGAS sample_lib) (JStr addr_b) 100)\<rparr>"
    by (rule full) (simp add: nonce_fields sample_valid sample_parse)
  then show ?thesis
    by (simp add: sample_defaults sample_codec sample_hex sample_node)
qed

end
